theory Spec2Isabelle
  imports Complex_Main
begin

section \<open>The chameleon field solver of SELCIE (Main/SolverChameleon.py)\<close>

text \<open>
  The class \<^verbatim>\<open>FieldSolver\<close> drives the finite-element library dolfin and computes with
  Python and numpy floats. Neither is part of the repository: both appear here as one
  record of functions, the backend, which every operation receives. Numbers are values
  of a type \<open>'r\<close> of which nothing is assumed: the backend supplies the comparison
  \<^verbatim>\<open><\<close>, the arithmetic, the value of each literal and of each Python integer, so that
  rounding, infinities and NaN are whatever the backend makes them. A dolfin
  \<^verbatim>\<open>Function\<close> is its vector of degree-of-freedom coefficients, an \<open>'r list\<close>; assembled
  matrices and right-hand sides are values of a type \<open>'t\<close> that only the backend
  inspects. Every call into dolfin and every printed line is appended to the \<open>trace\<close>
  of the solver, so that what an operation asked for can be read off afterwards. An
  exception is a value \<open>Inl e\<close>; as in Python, the attributes assigned before the
  exception was raised keep their new values.
\<close>

subsection \<open>Errors, forms and the backend\<close>

datatype error =
    SystemExit
  | AttributeError
  | TypeError
  | ZeroDivisionError
  | RuntimeError
  | Exception string

text \<open>The weight \<^verbatim>\<open>self.sym_factor\<close>: \<^verbatim>\<open>Expression('abs(x[0])')\<close>,
  \<^verbatim>\<open>Expression('abs(x[1])')\<close> or \<^verbatim>\<open>Constant(1)\<close>.\<close>

datatype weight = Abs_x0 | Abs_x1 | Constant_1

text \<open>The forms handed to \<^verbatim>\<open>d.assemble\<close>, one constructor for each expression in the
  source, carrying the numbers and functions the expression mentions.\<close>

datatype 'r form =
    Form_P
  | Form_A
  | Form_A0
  | Form_A1 int "'r list"
  | Form_B_picard int "'r list"
  | Form_B_newton 'r int "'r list"
  | Form_A_vector
  | Form_b_grad "'r list"
  | Form_b_grad_mag "'r list"
  | Form_b_residual 'r int "'r list" "'r list"
  | Form_b_laplacian "'r list"
  | Form_b_potential int "'r list"

text \<open>The parameters of a \<^verbatim>\<open>KrylovSolver\<close>: method, preconditioner, absolute and relative
  tolerance, maximum number of iterations.\<close>

datatype 'r krylov_parameters = Krylov_parameters string string 'r 'r int

datatype 'r event =
    Message string
  | IterationReport int 'r
  | DimensionReport int nat nat
  | FunctionSpace int
  | VectorFunctionSpace int
  | Interpolated_density
  | Interpolated_constant 'r
  | Assembled weight "'r form"
  | KrylovSolver string string
  | Solved "'r krylov_parameters"
  | Evaluated "'r list"
  | SubMesh int
  | ClosestEntity "'r list"

text \<open>
  The backend.

  Python numbers: \<open>py_number i\<close> is the integer \<open>i\<close> and \<open>py_literal\<close> the value of a
  float literal, given by its text; \<open>py_less\<close> is \<^verbatim>\<open><\<close> (and \<^verbatim>\<open>a > b\<close> is \<^verbatim>\<open>b < a\<close>);
  \<open>py_add\<close>, \<open>py_sub\<close>, \<open>py_mul\<close>, \<open>py_div\<close> are \<^verbatim>\<open>+ - * /\<close> and \<open>float_pow\<close> is
  \<^verbatim>\<open>pow\<close>, which may raise. \<open>linalg_norm\<close> is \<^verbatim>\<open>np.linalg.norm\<close>.

  dolfin: \<open>krylov_solve prm M x b\<close> is \<^verbatim>\<open>solver.solve(M, x, b)\<close>: it overwrites the vector
  \<open>x\<close> and may raise, so it returns the new contents of \<open>x\<close> and the exception, if any.
  \<open>vector_minus u f\<close> is \<^verbatim>\<open>u.vector() - f.vector()\<close>, \<open>relaxed theta u f\<close> the function
  assigned by \<^verbatim>\<open>f.assign(theta*u + (1 - theta)*f)\<close>, \<open>incremented f theta du\<close> the vector
  after \<^verbatim>\<open>f.vector()[:] += theta*du.vector()\<close>, \<open>norm_linf\<close> is \<^verbatim>\<open>d.norm(x, 'linf')\<close>.
  \<open>evaluate f x\<close> is the call \<^verbatim>\<open>f(x)\<close> of a dolfin function at a point, which raises
  outside the mesh. \<open>sub_mesh i\<close> is the block
  \<^verbatim>\<open>SubMesh; BoundaryMesh; BoundingBoxTree.build\<close> and gives the vertices of the
  sub-mesh; \<open>closest_distance i p\<close> is the distance that
  \<^verbatim>\<open>bbtree.compute_closest_entity(p)\<close> reports for that sub-mesh.
\<close>

record ('r, 't) backend =
  topology_dim :: int
  symmetry :: string
  py_number :: "int \<Rightarrow> 'r"
  py_literal :: "string \<Rightarrow> 'r"
  py_less :: "'r \<Rightarrow> 'r \<Rightarrow> bool"
  py_add :: "'r \<Rightarrow> 'r \<Rightarrow> 'r"
  py_sub :: "'r \<Rightarrow> 'r \<Rightarrow> 'r"
  py_mul :: "'r \<Rightarrow> 'r \<Rightarrow> 'r"
  py_div :: "'r \<Rightarrow> 'r \<Rightarrow> 'r"
  float_pow :: "'r \<Rightarrow> 'r \<Rightarrow> error + 'r"
  linalg_norm :: "'r list \<Rightarrow> 'r"
  interpolate_density :: "'r list"
  interpolate_constant :: "'r \<Rightarrow> 'r list"
  vector_max :: "'r list \<Rightarrow> 'r"
  new_function :: "'r list"
  new_vector_function :: "'r list"
  assemble :: "weight \<Rightarrow> 'r form \<Rightarrow> 't"
  scaled_plus :: "'r \<Rightarrow> 't \<Rightarrow> 't \<Rightarrow> 't"
  tensor_minus :: "'t \<Rightarrow> 't \<Rightarrow> 't"
  krylov_solve :: "'r krylov_parameters \<Rightarrow> 't \<Rightarrow> 'r list \<Rightarrow> 't \<Rightarrow> 'r list \<times> error option"
  vector_minus :: "'r list \<Rightarrow> 'r list \<Rightarrow> 'r list"
  relaxed :: "'r \<Rightarrow> 'r list \<Rightarrow> 'r list \<Rightarrow> 'r list"
  incremented :: "'r list \<Rightarrow> 'r \<Rightarrow> 'r list \<Rightarrow> 'r list"
  norm_linf :: "'r list \<Rightarrow> 'r"
  evaluate :: "'r list \<Rightarrow> 'r list \<Rightarrow> error + 'r"
  sub_mesh :: "int \<Rightarrow> error + ('r \<times> 'r \<times> 'r) list"
  closest_distance :: "int \<Rightarrow> 'r \<times> 'r \<times> 'r \<Rightarrow> 'r"

subsection \<open>The solver object\<close>

record ('r, 't) solver =
  alpha :: 'r
  n :: int
  deg_V :: int
  mesh_dimension :: int
  mesh_symmetry :: string
  sym_factor :: weight
  density_projection :: "'r list"
  density_max :: 'r
  field_min :: 'r
  field :: "'r list option"
  field_grad_mag :: "'r list option"
  residual :: "'r list option"
  laplacian :: "'r list option"
  potential_derivative :: "'r list option"
  field_grad :: "'r list option"
  p_field :: "'r list option"
  P :: 't
  A :: 't
  relaxation_parameter :: 'r
  tol_du :: 'r
  tol_rel_du :: 'r
  maxiter :: int
  trace :: "'r event list"

definition emit :: "'r event list \<Rightarrow> ('r, 't) solver \<Rightarrow> ('r, 't) solver" where
  "emit es s = s\<lparr>trace := trace s @ es\<rparr>"

text \<open>The three assignments to \<^verbatim>\<open>solver.parameters\<close> that follow every
  \<^verbatim>\<open>d.KrylovSolver(solver_method, preconditioner)\<close>.\<close>

definition krylov :: "string \<Rightarrow> string \<Rightarrow> ('r, 't) solver \<Rightarrow> 'r krylov_parameters" where
  "krylov solver_method preconditioner s =
     Krylov_parameters solver_method preconditioner (tol_du s) (tol_rel_du s) (maxiter s)"

subsection \<open>Construction: \<^verbatim>\<open>__init__\<close>\<close>

text \<open>
  Lines 57 to 70 choose the weight. On a 2-D mesh an unknown symmetry prints two lines
  and calls \<^verbatim>\<open>sys.exit()\<close>; on a 3-D mesh the symmetry is not looked at; for any other
  dimension no weight is assigned, and the first use of \<^verbatim>\<open>self.sym_factor\<close> (line 96)
  raises.
\<close>

definition choose_sym_factor :: "int \<Rightarrow> string \<Rightarrow> error + weight option" where
  "choose_sym_factor dimension tag =
     (if dimension = 2 then
        (if tag = ''vertical axis-symmetry'' then Inr (Some Abs_x0)
         else if tag = ''horizontal axis-symmetry'' then Inr (Some Abs_x1)
         else if tag = ''cylinder slice'' then Inr (Some Constant_1)
         else Inl SystemExit)
      else if dimension = 3 then Inr (Some Constant_1)
      else Inr None)"

text \<open>The exponent \<^verbatim>\<open>-1/(self.n+1)\<close> is a division of Python integers, which raises for
  \<open>n = -1\<close>.\<close>

definition init ::
  "('r, 't) backend \<Rightarrow> 'r \<Rightarrow> int \<Rightarrow> int \<Rightarrow> (error + ('r, 't) solver) \<times> 'r event list" where
  "init be alpha0 n0 deg =
     (case choose_sym_factor (topology_dim be) (symmetry be) of
        Inl e \<Rightarrow>
          (Inl e, [Message ''Inputted mesh symmetry not recognised.'',
                   Message ''Terminated code prematurely.''])
      | Inr w \<Rightarrow>
          (let tr1 = [FunctionSpace deg, VectorFunctionSpace deg, Interpolated_density];
               projection = interpolate_density be;
               dmax = vector_max be projection
           in if n0 + 1 = 0 then (Inl ZeroDivisionError, tr1)
              else
                (case float_pow be dmax
                        (py_div be (py_number be (- 1)) (py_number be (n0 + 1))) of
                   Inl e \<Rightarrow> (Inl e, tr1)
                 | Inr fmin \<Rightarrow>
                     (case w of
                        None \<Rightarrow> (Inl AttributeError, tr1)
                      | Some sf \<Rightarrow>
                          (let tr2 = tr1 @ [Assembled sf Form_P, Assembled sf Form_A]
                           in (Inr \<lparr>alpha = alpha0, n = n0, deg_V = deg,
                                    mesh_dimension = topology_dim be,
                                    mesh_symmetry = symmetry be,
                                    sym_factor = sf,
                                    density_projection = projection,
                                    density_max = dmax,
                                    field_min = fmin,
                                    field = None,
                                    field_grad_mag = None,
                                    residual = None,
                                    laplacian = None,
                                    potential_derivative = None,
                                    field_grad = None,
                                    p_field = None,
                                    P = assemble be sf Form_P,
                                    A = assemble be sf Form_A,
                                    relaxation_parameter = py_literal be ''1.0'',
                                    tol_du = py_literal be ''1.0e-14'',
                                    tol_rel_du = py_literal be ''1.0e-10'',
                                    maxiter = 1000,
                                    trace = tr2\<rparr>, tr2))))))"

subsection \<open>The nonlinear solves: \<^verbatim>\<open>picard\<close> and \<^verbatim>\<open>newton\<close>\<close>

text \<open>
  The \<^verbatim>\<open>while\<close> loop of \<^verbatim>\<open>picard\<close> (lines 143 to 159). Its variables are the counter
  \<open>i\<close>, \<open>du_norm\<close> and the vector of \<open>u\<close>, which the linear solver overwrites in each
  round. \<^verbatim>\<open>pow(self.field, ...)\<close> on an unset field would be a \<^verbatim>\<open>TypeError\<close>.
\<close>

function picard_loop ::
  "('r, 't) backend \<Rightarrow> 'r krylov_parameters \<Rightarrow> 't \<Rightarrow> int \<Rightarrow> 'r \<Rightarrow> 'r list \<Rightarrow> ('r, 't) solver
     \<Rightarrow> (error + unit) \<times> ('r, 't) solver" where
  "picard_loop be prm A0 i du_norm u s =
     (if py_less be (tol_du s) du_norm \<and> i < maxiter s then
        (case field s of
           None \<Rightarrow> (Inl TypeError, s)
         | Some f \<Rightarrow>
             (let A1 = assemble be (sym_factor s) (Form_A1 (n s) f);
                  B = assemble be (sym_factor s) (Form_B_picard (n s) f);
                  res = krylov_solve be prm (scaled_plus be (alpha s) A0 A1) u
                          (tensor_minus be B (P s));
                  s1 = emit [Assembled (sym_factor s) (Form_A1 (n s) f),
                             Assembled (sym_factor s) (Form_B_picard (n s) f),
                             Solved prm] s
              in case snd res of
                   Some e \<Rightarrow> (Inl e, s1)
                 | None \<Rightarrow>
                     (let du = vector_minus be (fst res) f;
                          s2 = s1\<lparr>field := Some (relaxed be (relaxation_parameter s) (fst res) f)\<rparr>;
                          s3 = emit [IterationReport (i + 1) (norm_linf be du)] s2
                      in picard_loop be prm A0 (i + 1) (norm_linf be du) (fst res) s3)))
      else (Inr (), s))"
  by pat_completeness auto
termination
  by (relation "measure (\<lambda>(be, prm, A0, i, du_norm, u, s). nat (maxiter s - i))")
     (auto simp: emit_def)

declare picard_loop.simps [simp del]

definition picard ::
  "('r, 't) backend \<Rightarrow> string \<Rightarrow> string \<Rightarrow> ('r, 't) solver \<Rightarrow> (error + unit) \<times> ('r, 't) solver" where
  "picard be solver_method preconditioner s =
     (let prm = krylov solver_method preconditioner s;
          A0 = assemble be (sym_factor s) Form_A0;
          s1 = (emit [KrylovSolver solver_method preconditioner, Assembled (sym_factor s) Form_A0,
                      Interpolated_constant (field_min s)] s)
                 \<lparr>field := Some (interpolate_constant be (field_min s))\<rparr>
      in picard_loop be prm A0 0 (py_number be 1) (new_function be) s1)"

text \<open>The loop of \<^verbatim>\<open>newton\<close> (lines 198 to 214); the solver overwrites \<open>du\<close>.\<close>

function newton_loop ::
  "('r, 't) backend \<Rightarrow> 'r krylov_parameters \<Rightarrow> 't \<Rightarrow> int \<Rightarrow> 'r \<Rightarrow> 'r list \<Rightarrow> ('r, 't) solver
     \<Rightarrow> (error + unit) \<times> ('r, 't) solver" where
  "newton_loop be prm A0 i du_norm du s =
     (if py_less be (tol_du s) du_norm \<and> i < maxiter s then
        (case field s of
           None \<Rightarrow> (Inl TypeError, s)
         | Some f \<Rightarrow>
             (let A1 = assemble be (sym_factor s) (Form_A1 (n s) f);
                  B = assemble be (sym_factor s) (Form_B_newton (alpha s) (n s) f);
                  res = krylov_solve be prm (scaled_plus be (alpha s) A0 A1) du
                          (tensor_minus be B (P s));
                  s1 = emit [Assembled (sym_factor s) (Form_A1 (n s) f),
                             Assembled (sym_factor s) (Form_B_newton (alpha s) (n s) f),
                             Solved prm] s
              in case snd res of
                   Some e \<Rightarrow> (Inl e, s1)
                 | None \<Rightarrow>
                     (let s2 = s1\<lparr>field :=
                                 Some (incremented be f (relaxation_parameter s) (fst res))\<rparr>;
                          s3 = emit [IterationReport (i + 1) (norm_linf be (fst res))] s2
                      in newton_loop be prm A0 (i + 1) (norm_linf be (fst res)) (fst res) s3)))
      else (Inr (), s))"
  by pat_completeness auto
termination
  by (relation "measure (\<lambda>(be, prm, A0, i, du_norm, du, s). nat (maxiter s - i))")
     (auto simp: emit_def)

declare newton_loop.simps [simp del]

definition newton ::
  "('r, 't) backend \<Rightarrow> string \<Rightarrow> string \<Rightarrow> ('r, 't) solver \<Rightarrow> (error + unit) \<times> ('r, 't) solver" where
  "newton be solver_method preconditioner s =
     (let prm = krylov solver_method preconditioner s;
          A0 = assemble be (sym_factor s) Form_A0;
          s1 = (emit [KrylovSolver solver_method preconditioner, Assembled (sym_factor s) Form_A0,
                      Interpolated_constant (field_min s)] s)
                 \<lparr>field := Some (interpolate_constant be (field_min s))\<rparr>
      in newton_loop be prm A0 0 (py_number be 1) (new_function be) s1)"

subsection \<open>Derived fields\<close>

text \<open>
  Each \<^verbatim>\<open>calc_\<close> method builds a Krylov solver, assembles its right-hand side, binds a
  fresh \<^verbatim>\<open>d.Function\<close> to its attribute and lets the linear solver fill it. The
  attribute is therefore assigned even when the linear solve raises. The guards
  \<^verbatim>\<open>if self.field is None: self.picard()\<close> and
  \<^verbatim>\<open>if self.field_grad is None: self.calc_field_grad_vector()\<close> are written out where
  the source has them.
\<close>

definition calc_field_grad_vector ::
  "('r, 't) backend \<Rightarrow> string \<Rightarrow> string \<Rightarrow> ('r, 't) solver
     \<Rightarrow> (error + unit) \<times> ('r, 't) solver" where
  "calc_field_grad_vector be solver_method preconditioner s =
     (case (if field s = None then picard be ''cg'' ''default'' s else (Inr (), s)) of
        (Inl e, s1) \<Rightarrow> (Inl e, s1)
      | (Inr _, s1) \<Rightarrow>
          (case field s1 of
             None \<Rightarrow> (Inl TypeError, emit [KrylovSolver solver_method preconditioner,
                                            Assembled (sym_factor s1) Form_A_vector] s1)
           | Some f \<Rightarrow>
               (let prm = krylov solver_method preconditioner s1;
                    M = assemble be (sym_factor s1) Form_A_vector;
                    b = assemble be (sym_factor s1) (Form_b_grad f);
                    res = krylov_solve be prm M (new_vector_function be) b;
                    s2 = (emit [KrylovSolver solver_method preconditioner,
                                Assembled (sym_factor s1) Form_A_vector,
                                Assembled (sym_factor s1) (Form_b_grad f),
                                Solved prm] s1)\<lparr>field_grad := Some (fst res)\<rparr>
                in case snd res of Some e \<Rightarrow> (Inl e, s2) | None \<Rightarrow> (Inr (), s2))))"

definition calc_field_grad_mag ::
  "('r, 't) backend \<Rightarrow> string \<Rightarrow> string \<Rightarrow> ('r, 't) solver
     \<Rightarrow> (error + unit) \<times> ('r, 't) solver" where
  "calc_field_grad_mag be solver_method preconditioner s =
     (case (if field s = None then picard be ''cg'' ''default'' s else (Inr (), s)) of
        (Inl e, s1) \<Rightarrow> (Inl e, s1)
      | (Inr _, s1) \<Rightarrow>
          (case field s1 of
             None \<Rightarrow> (Inl TypeError, emit [KrylovSolver solver_method preconditioner] s1)
           | Some f \<Rightarrow>
               (let prm = krylov solver_method preconditioner s1;
                    b = assemble be (sym_factor s1) (Form_b_grad_mag f);
                    res = krylov_solve be prm (A s1) (new_function be) b;
                    s2 = (emit [KrylovSolver solver_method preconditioner,
                                Assembled (sym_factor s1) (Form_b_grad_mag f),
                                Solved prm] s1)\<lparr>field_grad_mag := Some (fst res)\<rparr>
                in case snd res of Some e \<Rightarrow> (Inl e, s2) | None \<Rightarrow> (Inr (), s2))))"

definition calc_field_residual ::
  "('r, 't) backend \<Rightarrow> string \<Rightarrow> string \<Rightarrow> ('r, 't) solver
     \<Rightarrow> (error + unit) \<times> ('r, 't) solver" where
  "calc_field_residual be solver_method preconditioner s =
     (case (if field s = None then picard be ''cg'' ''default'' s else (Inr (), s)) of
        (Inl e, s1) \<Rightarrow> (Inl e, s1)
      | (Inr _, s1) \<Rightarrow>
          (case (if field_grad s1 = None then calc_field_grad_vector be ''cg'' ''jacobi'' s1
                 else (Inr (), s1)) of
             (Inl e, s2) \<Rightarrow> (Inl e, s2)
           | (Inr _, s2) \<Rightarrow>
               (case (field_grad s2, field s2) of
                  (Some g, Some f) \<Rightarrow>
                    (let prm = krylov solver_method preconditioner s2;
                         b = assemble be (sym_factor s2) (Form_b_residual (alpha s2) (n s2) g f);
                         res = krylov_solve be prm (A s2) (new_function be) b;
                         s3 = (emit [KrylovSolver solver_method preconditioner,
                                     Assembled (sym_factor s2)
                                       (Form_b_residual (alpha s2) (n s2) g f),
                                     Solved prm] s2)\<lparr>residual := Some (fst res)\<rparr>
                     in case snd res of Some e \<Rightarrow> (Inl e, s3) | None \<Rightarrow> (Inr (), s3))
                | _ \<Rightarrow> (Inl TypeError, emit [KrylovSolver solver_method preconditioner] s2))))"

definition calc_laplacian ::
  "('r, 't) backend \<Rightarrow> string \<Rightarrow> string \<Rightarrow> ('r, 't) solver
     \<Rightarrow> (error + unit) \<times> ('r, 't) solver" where
  "calc_laplacian be solver_method preconditioner s =
     (case (if field_grad s = None then calc_field_grad_vector be ''cg'' ''jacobi'' s
            else (Inr (), s)) of
        (Inl e, s1) \<Rightarrow> (Inl e, s1)
      | (Inr _, s1) \<Rightarrow>
          (case field_grad s1 of
             None \<Rightarrow> (Inl TypeError, emit [KrylovSolver solver_method preconditioner] s1)
           | Some g \<Rightarrow>
               (let prm = krylov solver_method preconditioner s1;
                    b = assemble be (sym_factor s1) (Form_b_laplacian g);
                    res = krylov_solve be prm (A s1) (new_function be) b;
                    s2 = (emit [KrylovSolver solver_method preconditioner,
                                Assembled (sym_factor s1) (Form_b_laplacian g),
                                Solved prm] s1)\<lparr>laplacian := Some (fst res)\<rparr>
                in case snd res of Some e \<Rightarrow> (Inl e, s2) | None \<Rightarrow> (Inr (), s2))))"

definition calc_density_field :: "('r, 't) backend \<Rightarrow> ('r, 't) solver \<Rightarrow> (error + unit) \<times> ('r, 't) solver" where
  "calc_density_field be s =
     (Inr (), (emit [Interpolated_density] s)\<lparr>p_field := Some (interpolate_density be)\<rparr>)"

definition calc_potential_derivative ::
  "('r, 't) backend \<Rightarrow> string \<Rightarrow> string \<Rightarrow> ('r, 't) solver
     \<Rightarrow> (error + unit) \<times> ('r, 't) solver" where
  "calc_potential_derivative be solver_method preconditioner s =
     (case (if field s = None then picard be ''cg'' ''default'' s else (Inr (), s)) of
        (Inl e, s1) \<Rightarrow> (Inl e, s1)
      | (Inr _, s1) \<Rightarrow>
          (case field s1 of
             None \<Rightarrow> (Inl TypeError, emit [KrylovSolver solver_method preconditioner] s1)
           | Some f \<Rightarrow>
               (let prm = krylov solver_method preconditioner s1;
                    b = assemble be (sym_factor s1) (Form_b_potential (n s1) f);
                    res = krylov_solve be prm (A s1) (new_function be) b;
                    s2 = (emit [KrylovSolver solver_method preconditioner,
                                Assembled (sym_factor s1) (Form_b_potential (n s1) f),
                                Solved prm] s1)\<lparr>potential_derivative := Some (fst res)\<rparr>
                in case snd res of Some e \<Rightarrow> (Inl e, s2) | None \<Rightarrow> (Inr (), s2))))"

text \<open>
  The first block of \<^verbatim>\<open>plot_residual_slice\<close> (lines 746 to 757, "Get field values for
  each part of the equation of motion"): each of the four fields is computed only when
  its attribute is still unset.
\<close>

definition plot_residual_slice_fields :: "('r, 't) backend \<Rightarrow> ('r, 't) solver \<Rightarrow> (error + unit) \<times> ('r, 't) solver" where
  "plot_residual_slice_fields be s =
     (case (if residual s = None then calc_field_residual be ''richardson'' ''icc'' s
            else (Inr (), s)) of
        (Inl e, s1) \<Rightarrow> (Inl e, s1)
      | (Inr _, s1) \<Rightarrow>
          (case (if laplacian s1 = None then calc_laplacian be ''richardson'' ''icc'' s1
                 else (Inr (), s1)) of
             (Inl e, s2) \<Rightarrow> (Inl e, s2)
           | (Inr _, s2) \<Rightarrow>
               (case (if potential_derivative s2 = None
                      then calc_potential_derivative be ''richardson'' ''icc'' s2
                      else (Inr (), s2)) of
                  (Inl e, s3) \<Rightarrow> (Inl e, s3)
                | (Inr _, s3) \<Rightarrow>
                    (if p_field s3 = None then calc_density_field be s3 else (Inr (), s3)))))"

subsection \<open>The extremum search: \<^verbatim>\<open>measure_fifth_force\<close>\<close>

definition coordinates :: "'r \<times> 'r \<times> 'r \<Rightarrow> 'r list" where
  "coordinates p = (case p of (x, y, z) \<Rightarrow> [x, y, z])"

text \<open>
  The \<^verbatim>\<open>for\<close> loop over the vertices of the sub-mesh (lines 480 to 489), with the
  running maximum \<open>fifth_force_max\<close> and the running \<open>probe_point\<close>. The two ends of
  the band, \<^verbatim>\<open>boundary_distance - tol/2\<close> and \<^verbatim>\<open>boundary_distance + tol/2\<close>, are
  computed with the arithmetic of the backend.
\<close>

fun scan_vertices ::
  "('r, 't) backend \<Rightarrow> int \<Rightarrow> 'r \<Rightarrow> 'r \<Rightarrow> ('r \<times> 'r \<times> 'r) list \<Rightarrow> 'r
     \<Rightarrow> ('r \<times> 'r \<times> 'r) option \<Rightarrow> ('r, 't) solver
     \<Rightarrow> (error + 'r \<times> ('r \<times> 'r \<times> 'r) option) \<times> ('r, 't) solver" where
  "scan_vertices be subdomain boundary_distance tol [] fifth_force_max probe_point s =
     (Inr (fifth_force_max, probe_point), s)"
| "scan_vertices be subdomain boundary_distance tol (v # vs) fifth_force_max probe_point s =
     (let distance = closest_distance be subdomain v;
          s1 = emit [ClosestEntity (coordinates v)] s
      in if py_less be (py_sub be boundary_distance (py_div be tol (py_number be 2))) distance
            \<and> py_less be distance (py_add be boundary_distance (py_div be tol (py_number be 2)))
         then
           (case field_grad_mag s1 of
              None \<Rightarrow> (Inl TypeError, s1)
            | Some gm \<Rightarrow>
                (case evaluate be gm (coordinates v) of
                   Inl e \<Rightarrow> (Inl e, emit [Evaluated (coordinates v)] s1)
                 | Inr ff \<Rightarrow>
                     (if py_less be fifth_force_max ff
                      then scan_vertices be subdomain boundary_distance tol vs ff (Some v)
                             (emit [Evaluated (coordinates v)] s1)
                      else scan_vertices be subdomain boundary_distance tol vs fifth_force_max
                             probe_point (emit [Evaluated (coordinates v)] s1))))
         else scan_vertices be subdomain boundary_distance tol vs fifth_force_max probe_point s1)"

definition measure_fifth_force ::
  "('r, 't) backend \<Rightarrow> int \<Rightarrow> 'r \<Rightarrow> 'r \<Rightarrow> ('r, 't) solver
     \<Rightarrow> (error + 'r \<times> ('r \<times> 'r \<times> 'r)) \<times> ('r, 't) solver" where
  "measure_fifth_force be subdomain boundary_distance tol s =
     (case (if field_grad_mag s = None then calc_field_grad_mag be ''cg'' ''jacobi'' s
            else (Inr (), s)) of
        (Inl e, s1) \<Rightarrow> (Inl e, s1)
      | (Inr _, s1) \<Rightarrow>
          (case sub_mesh be subdomain of
             Inl e \<Rightarrow>
               (Inl (Exception ''Error has occured. Check Your subdomain index is correct.''),
                emit [SubMesh subdomain] s1)
           | Inr vs \<Rightarrow>
               (case scan_vertices be subdomain boundary_distance tol vs (py_literal be ''0.0'')
                       None (emit [SubMesh subdomain] s1) of
                  (Inl e, s2) \<Rightarrow> (Inl e, s2)
                | (Inr (fifth_force_max, None), s2) \<Rightarrow>
                    (Inl (Exception ''No vertex found. Try changing search parameters.''), s2)
                | (Inr (fifth_force_max, Some probe_point), s2) \<Rightarrow>
                    (Inr (fifth_force_max, probe_point), s2))))"

subsection \<open>Sampling along a ray: \<^verbatim>\<open>probe_function\<close>\<close>

text \<open>\<^verbatim>\<open>gradient_vector*displacement + origin\<close> on numpy arrays: the product with the
  integer and the sum, element by element, in the arithmetic of the backend.\<close>

definition path_point :: "('r, 't) backend \<Rightarrow> 'r list \<Rightarrow> nat \<Rightarrow> 'r list \<Rightarrow> 'r list" where
  "path_point be gradient_vector displacement origin =
     map2 (\<lambda>g x. py_add be (py_mul be g (py_number be (int displacement))) x)
       gradient_vector origin"

text \<open>
  The \<^verbatim>\<open>while\<close> loop of lines 712 to 717. Nothing bounds the number of rounds, so the
  loop is a partial function: \<open>None\<close> stands for a run that never leaves the loop.
  The argument \<open>fn\<close> is the callable \<^verbatim>\<open>function\<close>; an exception it raises ends the
  call.
\<close>

partial_function (option) probe_loop ::
  "('r, 't) backend \<Rightarrow> ('r list \<Rightarrow> error + 'a) \<Rightarrow> 'r list \<Rightarrow> 'r list \<Rightarrow> 'r \<Rightarrow> 'r \<Rightarrow> nat
     \<Rightarrow> 'a list \<Rightarrow> 'r list \<Rightarrow> ('r, 't) solver \<Rightarrow> ((error + 'a list) \<times> ('r, 't) solver) option" where
  "probe_loop be fn gradient_vector origin radial_limit radius_distence displacement values v s =
     (if py_less be radius_distence radial_limit then
        (case fn v of
           Inl e \<Rightarrow> Some (Inl e, emit [Evaluated v] s)
         | Inr y \<Rightarrow>
             probe_loop be fn gradient_vector origin radial_limit
               (linalg_norm be (path_point be gradient_vector (displacement + 1) origin))
               (displacement + 1)
               (values @ [y])
               (path_point be gradient_vector (displacement + 1) origin)
               (emit [Evaluated v] s))
      else Some (Inr values, s))"

text \<open>On a dimension mismatch the method prints two lines and returns \<^verbatim>\<open>None\<close>: the
  result \<open>Inr None\<close>, not an exception. Otherwise the loop starts with
  \<^verbatim>\<open>radius_distence = 0\<close> and \<^verbatim>\<open>displacement = 0\<close>.\<close>

definition probe_function ::
  "('r, 't) backend \<Rightarrow> ('r list \<Rightarrow> error + 'a) \<Rightarrow> 'r list \<Rightarrow> 'r list \<Rightarrow> 'r \<Rightarrow> ('r, 't) solver
     \<Rightarrow> ((error + 'a list option) \<times> ('r, 't) solver) option" where
  "probe_function be fn gradient_vector origin radial_limit s =
     (if int (length gradient_vector) \<noteq> mesh_dimension s
         \<or> int (length origin) \<noteq> mesh_dimension s
      then Some (Inr None,
                 emit [Message ''Vectors given have the wrong dimesion.'',
                       DimensionReport (mesh_dimension s) (length gradient_vector)
                         (length origin)] s)
      else
        (case probe_loop be fn gradient_vector origin radial_limit (py_number be 0) 0 []
                (path_point be gradient_vector 0 origin) s of
           None \<Rightarrow> None
         | Some (Inl e, s1) \<Rightarrow> Some (Inl e, s1)
         | Some (Inr values, s1) \<Rightarrow> Some (Inr (Some values), s1)))"

subsection \<open>Reading the trace\<close>

fun is_solve :: "'r event \<Rightarrow> bool" where
  "is_solve (Solved prm) = True"
| "is_solve e = False"

fun is_evaluation :: "'r event \<Rightarrow> bool" where
  "is_evaluation (Evaluated x) = True"
| "is_evaluation e = False"

definition solves :: "('r, 't) solver \<Rightarrow> nat" where
  "solves s = length (filter is_solve (trace s))"

definition evaluations :: "('r, 't) solver \<Rightarrow> 'r event list" where
  "evaluations s = filter is_evaluation (trace s)"

subsection \<open>The iterates of the two solves, round by round\<close>

text \<open>
  For the statements about \<^verbatim>\<open>picard\<close> and \<^verbatim>\<open>newton\<close>: the linear solve of one round,
  and the values of \<open>du_norm\<close>, of the solver's vector and of the field after \<open>k\<close> rounds,
  as functions of \<open>k\<close>. They are read from the solver \<open>s\<close> the method was called on,
  which fixes \<open>alpha\<close>, \<open>n\<close>, the weight, \<open>P\<close>, the relaxation parameter and \<open>field_min\<close>.
\<close>

definition picard_round ::
  "('r, 't) backend \<Rightarrow> 'r krylov_parameters \<Rightarrow> 't \<Rightarrow> ('r, 't) solver \<Rightarrow> 'r list \<Rightarrow> 'r list
     \<Rightarrow> 'r list \<times> error option" where
  "picard_round be prm A0 s u f =
     krylov_solve be prm
       (scaled_plus be (alpha s) A0 (assemble be (sym_factor s) (Form_A1 (n s) f))) u
       (tensor_minus be (assemble be (sym_factor s) (Form_B_picard (n s) f)) (P s))"

primrec picard_iterate ::
  "('r, 't) backend \<Rightarrow> 'r krylov_parameters \<Rightarrow> 't \<Rightarrow> ('r, 't) solver \<Rightarrow> nat
     \<Rightarrow> 'r \<times> 'r list \<times> 'r list" where
  "picard_iterate be prm A0 s 0 =
     (py_number be 1, new_function be, interpolate_constant be (field_min s))"
| "picard_iterate be prm A0 s (Suc k) =
     (case picard_iterate be prm A0 s k of
        (du_norm, u, f) \<Rightarrow>
          (norm_linf be (vector_minus be (fst (picard_round be prm A0 s u f)) f),
           fst (picard_round be prm A0 s u f),
           relaxed be (relaxation_parameter s) (fst (picard_round be prm A0 s u f)) f))"

definition picard_events ::
  "('r, 't) backend \<Rightarrow> 'r krylov_parameters \<Rightarrow> 't \<Rightarrow> ('r, 't) solver \<Rightarrow> nat \<Rightarrow> 'r event list" where
  "picard_events be prm A0 s k =
     [Assembled (sym_factor s) (Form_A1 (n s) (snd (snd (picard_iterate be prm A0 s k)))),
      Assembled (sym_factor s) (Form_B_picard (n s) (snd (snd (picard_iterate be prm A0 s k)))),
      Solved prm,
      IterationReport (int k + 1) (fst (picard_iterate be prm A0 s (Suc k)))]"

definition newton_round ::
  "('r, 't) backend \<Rightarrow> 'r krylov_parameters \<Rightarrow> 't \<Rightarrow> ('r, 't) solver \<Rightarrow> 'r list \<Rightarrow> 'r list
     \<Rightarrow> 'r list \<times> error option" where
  "newton_round be prm A0 s du f =
     krylov_solve be prm
       (scaled_plus be (alpha s) A0 (assemble be (sym_factor s) (Form_A1 (n s) f))) du
       (tensor_minus be (assemble be (sym_factor s) (Form_B_newton (alpha s) (n s) f)) (P s))"

primrec newton_iterate ::
  "('r, 't) backend \<Rightarrow> 'r krylov_parameters \<Rightarrow> 't \<Rightarrow> ('r, 't) solver \<Rightarrow> nat
     \<Rightarrow> 'r \<times> 'r list \<times> 'r list" where
  "newton_iterate be prm A0 s 0 =
     (py_number be 1, new_function be, interpolate_constant be (field_min s))"
| "newton_iterate be prm A0 s (Suc k) =
     (case newton_iterate be prm A0 s k of
        (du_norm, du, f) \<Rightarrow>
          (norm_linf be (fst (newton_round be prm A0 s du f)),
           fst (newton_round be prm A0 s du f),
           incremented be f (relaxation_parameter s) (fst (newton_round be prm A0 s du f))))"

definition newton_events ::
  "('r, 't) backend \<Rightarrow> 'r krylov_parameters \<Rightarrow> 't \<Rightarrow> ('r, 't) solver \<Rightarrow> nat \<Rightarrow> 'r event list" where
  "newton_events be prm A0 s k =
     [Assembled (sym_factor s) (Form_A1 (n s) (snd (snd (newton_iterate be prm A0 s k)))),
      Assembled (sym_factor s)
        (Form_B_newton (alpha s) (n s) (snd (snd (newton_iterate be prm A0 s k)))),
      Solved prm,
      IterationReport (int k + 1) (fst (newton_iterate be prm A0 s (Suc k)))]"

subsection \<open>The band, and the first step of the extremum search\<close>

text \<open>The test of line 483 for a vertex of the sub-mesh, and lines 465 to 466, which
  compute the gradient magnitude when it is still unset.\<close>

definition in_band ::
  "('r, 't) backend \<Rightarrow> int \<Rightarrow> 'r \<Rightarrow> 'r \<Rightarrow> 'r \<times> 'r \<times> 'r \<Rightarrow> bool" where
  "in_band be subdomain boundary_distance tol v =
     (py_less be (py_sub be boundary_distance (py_div be tol (py_number be 2)))
        (closest_distance be subdomain v)
      \<and> py_less be (closest_distance be subdomain v)
          (py_add be boundary_distance (py_div be tol (py_number be 2))))"

definition gradient_magnitude_ready ::
  "('r, 't) backend \<Rightarrow> ('r, 't) solver \<Rightarrow> (error + unit) \<times> ('r, 't) solver" where
  "gradient_magnitude_ready be s =
     (if field_grad_mag s = None then calc_field_grad_mag be ''cg'' ''jacobi'' s
      else (Inr (), s))"

subsection \<open>A one-unknown backend with exact arithmetic, for concrete runs\<close>

text \<open>
  A backend on which the operations above can be run: numbers are real numbers with
  their exact order and arithmetic, there is a single degree of freedom, matrices and
  right-hand sides are numbers, every form assembles to 1, the linear solver divides,
  the distance of a vertex to the boundary is its first coordinate and a function
  evaluates to its coefficient plus the second coordinate of the point. The runs below
  take their inputs among the numbers that a double represents exactly (small integers
  and dyadic fractions), so that each sum, product, quotient and norm they compute is
  the one that Python floats give; the tolerances \<open>1.0e-14\<close> and \<open>1.0e-10\<close> only occur
  in comparisons with \<open>1\<close> and \<open>1/2\<close>.
\<close>

fun toy_evaluate :: "real list \<Rightarrow> real list \<Rightarrow> error + real" where
  "toy_evaluate (c # cs) (x # y # ys) = Inr (c + y)"
| "toy_evaluate cs xs = Inl RuntimeError"

definition toy_literal :: "string \<Rightarrow> real" where
  "toy_literal lit =
     (if lit = ''1.0'' then 1
      else if lit = ''1.0e-14'' then 1 / 10 ^ 14
      else if lit = ''1.0e-10'' then 1 / 10 ^ 10
      else 0)"

definition toy :: "int \<Rightarrow> string \<Rightarrow> (real \<times> real \<times> real) list \<Rightarrow> (real, real) backend" where
  "toy d tag vs =
     \<lparr>topology_dim = d,
      symmetry = tag,
      py_number = real_of_int,
      py_literal = toy_literal,
      py_less = (\<lambda>x y. x < y),
      py_add = (\<lambda>x y. x + y),
      py_sub = (\<lambda>x y. x - y),
      py_mul = (\<lambda>x y. x * y),
      py_div = (\<lambda>x y. x / y),
      float_pow = (\<lambda>x y. if x = 0 \<and> y < 0 then Inl ZeroDivisionError else Inr (x powr y)),
      linalg_norm = (\<lambda>v. sqrt (sum_list (map (\<lambda>x. x\<^sup>2) v))),
      interpolate_density = [1],
      interpolate_constant = (\<lambda>c. [c]),
      vector_max = (\<lambda>xs. fold max xs 0),
      new_function = [0],
      new_vector_function = [0, 0],
      assemble = (\<lambda>w f. 1),
      scaled_plus = (\<lambda>a x y. a * x + y),
      tensor_minus = (\<lambda>x y. x - y),
      krylov_solve = (\<lambda>prm M x b. ([b / M], None)),
      vector_minus = (\<lambda>us fs. map2 (\<lambda>u f. u - f) us fs),
      relaxed = (\<lambda>theta us fs. map2 (\<lambda>u f. theta * u + (1 - theta) * f) us fs),
      incremented = (\<lambda>fs theta dus. map2 (\<lambda>f du. f + theta * du) fs dus),
      norm_linf = (\<lambda>xs. fold (\<lambda>x m. max \<bar>x\<bar> m) xs 0),
      evaluate = toy_evaluate,
      sub_mesh = (\<lambda>i. if i = 0 then Inr vs else Inl RuntimeError),
      closest_distance = (\<lambda>i v. fst v)\<rparr>"

text \<open>A solver on a 2-D mesh with no field computed yet and room for one iteration.\<close>

definition toy_solver :: "(real, real) solver" where
  "toy_solver =
     \<lparr>alpha = 1, n = 0, deg_V = 1, mesh_dimension = 2,
      mesh_symmetry = ''cylinder slice'', sym_factor = Constant_1,
      density_projection = [1], density_max = 1, field_min = 1,
      field = None, field_grad_mag = None, residual = None, laplacian = None,
      potential_derivative = None, field_grad = None, p_field = None,
      P = 0, A = 1,
      relaxation_parameter = 1, tol_du = 1 / 10 ^ 14, tol_rel_du = 1 / 10 ^ 10,
      maxiter = 1, trace = []\<rparr>"

text \<open>The same solver with a field and with every derived slot set.\<close>

definition cached_solver :: "(real, real) solver" where
  "cached_solver =
     toy_solver\<lparr>field := Some [1], field_grad_mag := Some [0], residual := Some [0],
       laplacian := Some [0], potential_derivative := Some [1], field_grad := Some [0, 0],
       p_field := Some [1]\<rparr>"

text \<open>Two callables for the prober: one returns the sum of the coordinates of the
  point, the other raises at every point.\<close>

definition sum_probe :: "real list \<Rightarrow> error + real" where
  "sum_probe v = Inr (sum_list v)"

definition raising_probe :: "real list \<Rightarrow> error + real" where
  "raising_probe v = Inl RuntimeError"

subsection \<open>What an operation leaves alone\<close>

text \<open>\<open>frame s s'\<close>: the solver \<open>s'\<close> differs from \<open>s\<close> at most in its field and its
  trace.\<close>

definition frame :: "('r, 't) solver \<Rightarrow> ('r, 't) solver \<Rightarrow> bool" where
  "frame s s' = (s' = s\<lparr>field := field s', trace := trace s'\<rparr>)"

section \<open>Properties\<close>

subsection \<open>Running on the one-unknown backend\<close>

lemma toy_sel [simp]:
  "topology_dim (toy d tag vs) = d"
  "symmetry (toy d tag vs) = tag"
  "py_number (toy d tag vs) = real_of_int"
  "py_literal (toy d tag vs) = toy_literal"
  "py_less (toy d tag vs) = (\<lambda>x y. x < y)"
  "py_add (toy d tag vs) = (\<lambda>x y. x + y)"
  "py_sub (toy d tag vs) = (\<lambda>x y. x - y)"
  "py_mul (toy d tag vs) = (\<lambda>x y. x * y)"
  "py_div (toy d tag vs) = (\<lambda>x y. x / y)"
  "float_pow (toy d tag vs) =
     (\<lambda>x y. if x = 0 \<and> y < 0 then Inl ZeroDivisionError else Inr (x powr y))"
  "linalg_norm (toy d tag vs) = (\<lambda>v. sqrt (sum_list (map (\<lambda>x. x\<^sup>2) v)))"
  "interpolate_density (toy d tag vs) = [1]"
  "interpolate_constant (toy d tag vs) = (\<lambda>c. [c])"
  "vector_max (toy d tag vs) = (\<lambda>xs. fold max xs 0)"
  "new_function (toy d tag vs) = [0]"
  "new_vector_function (toy d tag vs) = [0, 0]"
  "assemble (toy d tag vs) = (\<lambda>w f. 1)"
  "scaled_plus (toy d tag vs) = (\<lambda>a x y. a * x + y)"
  "tensor_minus (toy d tag vs) = (\<lambda>x y. x - y)"
  "krylov_solve (toy d tag vs) = (\<lambda>prm M x b. ([b / M], None))"
  "vector_minus (toy d tag vs) = (\<lambda>us fs. map2 (\<lambda>u f. u - f) us fs)"
  "relaxed (toy d tag vs) = (\<lambda>theta us fs. map2 (\<lambda>u f. theta * u + (1 - theta) * f) us fs)"
  "incremented (toy d tag vs) = (\<lambda>fs theta dus. map2 (\<lambda>f du. f + theta * du) fs dus)"
  "norm_linf (toy d tag vs) = (\<lambda>xs. fold (\<lambda>x m. max \<bar>x\<bar> m) xs 0)"
  "evaluate (toy d tag vs) = toy_evaluate"
  "sub_mesh (toy d tag vs) = (\<lambda>i. if i = 0 then Inr vs else Inl RuntimeError)"
  "closest_distance (toy d tag vs) = (\<lambda>i v. fst v)"
  by (simp_all add: toy_def)

lemma toy_solver_sel [simp]:
  "alpha toy_solver = 1" "n toy_solver = 0" "mesh_dimension toy_solver = 2"
  "sym_factor toy_solver = Constant_1" "field_min toy_solver = 1"
  "field toy_solver = None" "field_grad_mag toy_solver = None" "residual toy_solver = None"
  "laplacian toy_solver = None" "potential_derivative toy_solver = None"
  "field_grad toy_solver = None" "p_field toy_solver = None"
  "P toy_solver = 0" "A toy_solver = 1" "relaxation_parameter toy_solver = 1"
  "tol_du toy_solver = 1 / 10 ^ 14" "tol_rel_du toy_solver = 1 / 10 ^ 10"
  "maxiter toy_solver = 1" "trace toy_solver = []"
  by (simp_all add: toy_solver_def)

subsection \<open>The two outer loops\<close>

lemma emit_simps [simp]:
  "trace (emit es s) = trace s @ es"
  "field (emit es s) = field s"
  "maxiter (emit es s) = maxiter s"
  "tol_du (emit es s) = tol_du s"
  "field_grad (emit es s) = field_grad s"
  "field_grad_mag (emit es s) = field_grad_mag s"
  "mesh_dimension (emit es s) = mesh_dimension s"
  by (simp_all add: emit_def)

lemma emit_emit: "emit es2 (emit es1 s) = emit (es1 @ es2) s"
  by (simp add: emit_def)

lemma emit_Nil [simp]: "emit [] s = s"
  by (simp add: emit_def)

lemma solves_simps [simp]:
  "solves (emit es s) = solves s + length (filter is_solve es)"
  "solves (s\<lparr>field := x\<rparr>) = solves s"
  "solves (s\<lparr>field_grad := x\<rparr>) = solves s"
  "solves (s\<lparr>field_grad_mag := x\<rparr>) = solves s"
  "solves (s\<lparr>laplacian := x\<rparr>) = solves s"
  "solves (s\<lparr>p_field := x\<rparr>) = solves s"
  by (simp_all add: solves_def emit_def)

lemma frame_refl [simp]: "frame s s"
  by (simp add: frame_def)

lemma frame_step:
  "frame (emit es s) s' \<Longrightarrow> frame s s'"
  "frame (s\<lparr>field := x\<rparr>) s' \<Longrightarrow> frame s s'"
  by (simp_all add: frame_def emit_def)

lemma frame_emit [simp]: "frame s (emit es s)"
  by (simp add: frame_def emit_def)

lemma frame_sel:
  assumes "frame s s'"
  shows "maxiter s' = maxiter s" "tol_du s' = tol_du s" "field_grad s' = field_grad s"
    "field_grad_mag s' = field_grad_mag s" "residual s' = residual s"
    "laplacian s' = laplacian s" "potential_derivative s' = potential_derivative s"
    "p_field s' = p_field s" "sym_factor s' = sym_factor s" "A s' = A s"
    "tol_rel_du s' = tol_rel_du s" "n s' = n s" "alpha s' = alpha s"
    "P s' = P s" "relaxation_parameter s' = relaxation_parameter s"
    "field_min s' = field_min s"
proof -
  from assms have e: "s' = s\<lparr>field := field s', trace := trace s'\<rparr>"
    by (simp add: frame_def)
  show "maxiter s' = maxiter s" by (subst e) simp
  show "tol_du s' = tol_du s" by (subst e) simp
  show "field_grad s' = field_grad s" by (subst e) simp
  show "field_grad_mag s' = field_grad_mag s" by (subst e) simp
  show "residual s' = residual s" by (subst e) simp
  show "laplacian s' = laplacian s" by (subst e) simp
  show "potential_derivative s' = potential_derivative s" by (subst e) simp
  show "p_field s' = p_field s" by (subst e) simp
  show "sym_factor s' = sym_factor s" by (subst e) simp
  show "A s' = A s" by (subst e) simp
  show "tol_rel_du s' = tol_rel_du s" by (subst e) simp
  show "n s' = n s" by (subst e) simp
  show "alpha s' = alpha s" by (subst e) simp
  show "P s' = P s" by (subst e) simp
  show "relaxation_parameter s' = relaxation_parameter s" by (subst e) simp
  show "field_min s' = field_min s" by (subst e) simp
qed

lemma frame_after:
  assumes "frame s t"
  shows "frame s (emit es t)" "frame s (t\<lparr>field := x\<rparr>)"
proof -
  from assms have e: "t = s\<lparr>field := field t, trace := trace t\<rparr>"
    by (simp add: frame_def)
  show "frame s (emit es t)"
    unfolding frame_def by (subst e) (simp add: emit_def)
  show "frame s (t\<lparr>field := x\<rparr>)"
    unfolding frame_def by (subst e) simp
qed

lemma frame_result:
  assumes "frame s t"
  shows "t\<lparr>field := x, trace := tr\<rparr> = s\<lparr>field := x, trace := tr\<rparr>"
proof -
  from assms have e: "t = s\<lparr>field := field t, trace := trace t\<rparr>"
    by (simp add: frame_def)
  show ?thesis by (subst e) simp
qed

lemma picard_loop_stop:
  "\<not> (py_less be (tol_du s) du \<and> i < maxiter s) \<Longrightarrow> picard_loop be prm A0 i du u s = (Inr (), s)"
  by (subst picard_loop.simps) auto

lemma picard_loop_unset:
  "py_less be (tol_du s) du \<Longrightarrow> i < maxiter s \<Longrightarrow> field s = None
   \<Longrightarrow> picard_loop be prm A0 i du u s = (Inl TypeError, s)"
  by (subst picard_loop.simps) simp

lemma picard_loop_raise:
  "py_less be (tol_du s) du \<Longrightarrow> i < maxiter s \<Longrightarrow> field s = Some f
   \<Longrightarrow> picard_round be prm A0 s u f = (x, Some e)
   \<Longrightarrow> picard_loop be prm A0 i du u s =
       (Inl e, emit [Assembled (sym_factor s) (Form_A1 (n s) f),
                     Assembled (sym_factor s) (Form_B_picard (n s) f), Solved prm] s)"
  by (subst picard_loop.simps) (simp add: Let_def picard_round_def)

lemma picard_loop_step:
  "py_less be (tol_du s) du \<Longrightarrow> i < maxiter s \<Longrightarrow> field s = Some f
   \<Longrightarrow> picard_round be prm A0 s u f = (x, None)
   \<Longrightarrow> picard_loop be prm A0 i du u s =
       picard_loop be prm A0 (i + 1) (norm_linf be (vector_minus be x f)) x
         (emit [IterationReport (i + 1) (norm_linf be (vector_minus be x f))]
           ((emit [Assembled (sym_factor s) (Form_A1 (n s) f),
                     Assembled (sym_factor s) (Form_B_picard (n s) f), Solved prm] s)
              \<lparr>field := Some (relaxed be (relaxation_parameter s) x f)\<rparr>))"
  by (subst picard_loop.simps) (simp add: Let_def picard_round_def)

lemma picard_loop_inv:
  "frame s (snd (picard_loop be prm A0 i du u s))
   \<and> solves (snd (picard_loop be prm A0 i du u s)) \<le> solves s + nat (maxiter s - i)
   \<and> (field s \<noteq> None \<longrightarrow> field (snd (picard_loop be prm A0 i du u s)) \<noteq> None)"
proof (induction be prm A0 i du u s rule: picard_loop.induct)
  case (1 be prm A0 i du_norm u s)
  show ?case
  proof (cases "py_less be (tol_du s) du_norm \<and> i < maxiter s")
    case False
    from False show ?thesis by (auto simp add: picard_loop_stop)
  next
    case True
    show ?thesis
    proof (cases "field s")
      case None
      from None True show ?thesis by (auto simp add: picard_loop_unset)
    next
      case (Some f)
      obtain x err where r: "picard_round be prm A0 s u f = (x, err)"
        by (cases "picard_round be prm A0 s u f")
      show ?thesis
      proof (cases err)
        case (Some e)
        then show ?thesis using True \<open>field s = Some f\<close> r
          by (auto simp add: picard_loop_raise)
      next
        case None
        note ih = "1.IH"[OF True \<open>field s = Some f\<close> refl refl refl refl,
            unfolded r [unfolded picard_round_def], simplified, OF None refl refl refl]
        from True \<open>field s = Some f\<close> r None ih show ?thesis
          by (auto simp add: picard_loop_step dest: frame_step)
      qed
    qed
  qed
qed

lemma newton_loop_stop:
  "\<not> (py_less be (tol_du s) du \<and> i < maxiter s) \<Longrightarrow> newton_loop be prm A0 i du u s = (Inr (), s)"
  by (subst newton_loop.simps) auto

lemma newton_loop_unset:
  "py_less be (tol_du s) du \<Longrightarrow> i < maxiter s \<Longrightarrow> field s = None
   \<Longrightarrow> newton_loop be prm A0 i du u s = (Inl TypeError, s)"
  by (subst newton_loop.simps) simp

lemma newton_loop_raise:
  "py_less be (tol_du s) du \<Longrightarrow> i < maxiter s \<Longrightarrow> field s = Some f
   \<Longrightarrow> newton_round be prm A0 s u f = (x, Some e)
   \<Longrightarrow> newton_loop be prm A0 i du u s =
       (Inl e, emit [Assembled (sym_factor s) (Form_A1 (n s) f),
                     Assembled (sym_factor s) (Form_B_newton (alpha s) (n s) f), Solved prm] s)"
  by (subst newton_loop.simps) (simp add: Let_def newton_round_def)

lemma newton_loop_step:
  "py_less be (tol_du s) du \<Longrightarrow> i < maxiter s \<Longrightarrow> field s = Some f
   \<Longrightarrow> newton_round be prm A0 s u f = (x, None)
   \<Longrightarrow> newton_loop be prm A0 i du u s =
       newton_loop be prm A0 (i + 1) (norm_linf be x) x
         (emit [IterationReport (i + 1) (norm_linf be x)]
           ((emit [Assembled (sym_factor s) (Form_A1 (n s) f),
                     Assembled (sym_factor s) (Form_B_newton (alpha s) (n s) f), Solved prm] s)
              \<lparr>field := Some (incremented be f (relaxation_parameter s) x)\<rparr>))"
  by (subst newton_loop.simps) (simp add: Let_def newton_round_def)

lemma newton_loop_inv:
  "frame s (snd (newton_loop be prm A0 i du u s))
   \<and> solves (snd (newton_loop be prm A0 i du u s)) \<le> solves s + nat (maxiter s - i)
   \<and> (field s \<noteq> None \<longrightarrow> field (snd (newton_loop be prm A0 i du u s)) \<noteq> None)"
proof (induction be prm A0 i du u s rule: newton_loop.induct)
  case (1 be prm A0 i du_norm u s)
  show ?case
  proof (cases "py_less be (tol_du s) du_norm \<and> i < maxiter s")
    case False
    from False show ?thesis by (auto simp add: newton_loop_stop)
  next
    case True
    show ?thesis
    proof (cases "field s")
      case None
      from None True show ?thesis by (auto simp add: newton_loop_unset)
    next
      case (Some f)
      obtain x err where r: "newton_round be prm A0 s u f = (x, err)"
        by (cases "newton_round be prm A0 s u f")
      show ?thesis
      proof (cases err)
        case (Some e)
        then show ?thesis using True \<open>field s = Some f\<close> r
          by (auto simp add: newton_loop_raise)
      next
        case None
        note ih = "1.IH"[OF True \<open>field s = Some f\<close> refl refl refl refl,
            unfolded r [unfolded newton_round_def], simplified, OF None refl refl]
        from True \<open>field s = Some f\<close> r None ih show ?thesis
          by (auto simp add: newton_loop_step dest: frame_step)
      qed
    qed
  qed
qed


lemma picard_round_frame:
  "frame s t \<Longrightarrow> picard_round be prm A0 t u f = picard_round be prm A0 s u f"
  by (simp add: picard_round_def frame_sel)

lemma picard_loop_run:
  assumes "frame s t"
    and "i \<le> K" and "K \<le> nat (maxiter s)"
    and "\<forall>k. i \<le> k \<and> k < K \<longrightarrow> py_less be (tol_du s) (fst (picard_iterate be prm A0 s k))"
    and "\<forall>k. i \<le> k \<and> k < K \<longrightarrow>
           snd (picard_round be prm A0 s (fst (snd (picard_iterate be prm A0 s k)))
                  (snd (snd (picard_iterate be prm A0 s k)))) = None"
    and "K = nat (maxiter s) \<or> \<not> py_less be (tol_du s) (fst (picard_iterate be prm A0 s K))"
    and "field t = Some (snd (snd (picard_iterate be prm A0 s i)))"
  shows "picard_loop be prm A0 (int i) (fst (picard_iterate be prm A0 s i))
           (fst (snd (picard_iterate be prm A0 s i))) t
      = (Inr (), t\<lparr>field := Some (snd (snd (picard_iterate be prm A0 s K))),
                   trace := trace t @ concat (map (picard_events be prm A0 s) [i..<K])\<rparr>)"
  using assms
proof (induction "K - i" arbitrary: i t)
  case 0
  then have iK: "i = K" by simp
  from 0(2) have m: "maxiter t = maxiter s" "tol_du t = tol_du s" by (simp_all add: frame_sel)
  have "K = nat (maxiter s) \<longrightarrow> \<not> int K < maxiter s" by arith
  then have "\<not> (py_less be (tol_du t) (fst (picard_iterate be prm A0 s i)) \<and> int i < maxiter t)"
    using 0(7) iK m by auto
  then have "picard_loop be prm A0 (int i) (fst (picard_iterate be prm A0 s i))
           (fst (snd (picard_iterate be prm A0 s i))) t = (Inr (), t)"
    by (rule picard_loop_stop)
  moreover have "t\<lparr>field := Some (snd (snd (picard_iterate be prm A0 s K))),
                   trace := trace t @ concat (map (picard_events be prm A0 s) [i..<K])\<rparr> = t"
    using 0(8) iK by simp
  ultimately show ?case by simp
next
  case (Suc d)
  then have lt: "i < K" by simp
  note fr = \<open>frame s t\<close>
  from fr have m: "maxiter t = maxiter s" "tol_du t = tol_du s" "sym_factor t = sym_factor s"
    "n t = n s" "relaxation_parameter t = relaxation_parameter s"
    by (simp_all add: frame_sel)
  obtain dn u f where it: "picard_iterate be prm A0 s i = (dn, u, f)"
    by (cases "picard_iterate be prm A0 s i") auto
  obtain x err where r: "picard_round be prm A0 s u f = (x, err)"
    by (cases "picard_round be prm A0 s u f")
  from Suc.prems(5) lt it r have err: "err = None" by auto
  from Suc.prems(4) lt it have c1: "py_less be (tol_du t) dn" by (auto simp add: m)
  from lt Suc.prems(3) have c2: "int i < maxiter t" by (simp add: m)
  from Suc.prems(7) it have c3: "field t = Some f" by simp
  from r err fr have c4: "picard_round be prm A0 t u f = (x, None)"
    by (simp add: picard_round_frame)
  let ?t' = "emit [IterationReport (int i + 1) (norm_linf be (vector_minus be x f))]
           ((emit [Assembled (sym_factor t) (Form_A1 (n t) f),
                     Assembled (sym_factor t) (Form_B_picard (n t) f), Solved prm] t)
              \<lparr>field := Some (relaxed be (relaxation_parameter t) x f)\<rparr>)"
  have nxt: "picard_iterate be prm A0 s (Suc i)
      = (norm_linf be (vector_minus be x f), x, relaxed be (relaxation_parameter s) x f)"
    using it r by simp
  have step: "picard_loop be prm A0 (int i) dn u t =
       picard_loop be prm A0 (int (Suc i)) (fst (picard_iterate be prm A0 s (Suc i)))
         (fst (snd (picard_iterate be prm A0 s (Suc i)))) ?t'"
    using picard_loop_step [OF c1 c2 c3 c4] nxt by (simp add: add.commute)
  have fr': "frame s ?t'" using fr by (intro frame_after)
  have fld': "field ?t' = Some (snd (snd (picard_iterate be prm A0 s (Suc i))))"
    using nxt by (simp add: m)
  have d: "d = K - Suc i" using Suc.hyps(2) by simp
  have a1: "Suc i \<le> K" using lt by simp
  have a4: "\<forall>k. Suc i \<le> k \<and> k < K \<longrightarrow> py_less be (tol_du s) (fst (picard_iterate be prm A0 s k))"
    using Suc.prems(4) by simp
  have a5: "\<forall>k. Suc i \<le> k \<and> k < K \<longrightarrow>
           snd (picard_round be prm A0 s (fst (snd (picard_iterate be prm A0 s k)))
                  (snd (snd (picard_iterate be prm A0 s k)))) = None"
    using Suc.prems(5) by simp
  note ih = Suc.hyps(1) [OF d fr' a1 Suc.prems(3) a4 a5 Suc.prems(6) fld']
  have ev: "trace ?t' = trace t @ picard_events be prm A0 s i"
    using it nxt by (simp add: picard_events_def m)
  have up: "[i..<K] = i # [Suc i..<K]" using lt by (simp add: upt_conv_Cons)
  have fin: "?t'\<lparr>field := Some (snd (snd (picard_iterate be prm A0 s K))),
                   trace := trace ?t' @ concat (map (picard_events be prm A0 s) [Suc i..<K])\<rparr>
      = t\<lparr>field := Some (snd (snd (picard_iterate be prm A0 s K))),
                   trace := trace t @ concat (map (picard_events be prm A0 s) [i..<K])\<rparr>"
    unfolding ev up by (simp add: emit_def)
  show ?case
    using step ih fin it by simp
qed


lemma newton_round_frame:
  "frame s t \<Longrightarrow> newton_round be prm A0 t u f = newton_round be prm A0 s u f"
  by (simp add: newton_round_def frame_sel)

lemma newton_loop_run:
  assumes "frame s t"
    and "i \<le> K" and "K \<le> nat (maxiter s)"
    and "\<forall>k. i \<le> k \<and> k < K \<longrightarrow> py_less be (tol_du s) (fst (newton_iterate be prm A0 s k))"
    and "\<forall>k. i \<le> k \<and> k < K \<longrightarrow>
           snd (newton_round be prm A0 s (fst (snd (newton_iterate be prm A0 s k)))
                  (snd (snd (newton_iterate be prm A0 s k)))) = None"
    and "K = nat (maxiter s) \<or> \<not> py_less be (tol_du s) (fst (newton_iterate be prm A0 s K))"
    and "field t = Some (snd (snd (newton_iterate be prm A0 s i)))"
  shows "newton_loop be prm A0 (int i) (fst (newton_iterate be prm A0 s i))
           (fst (snd (newton_iterate be prm A0 s i))) t
      = (Inr (), t\<lparr>field := Some (snd (snd (newton_iterate be prm A0 s K))),
                   trace := trace t @ concat (map (newton_events be prm A0 s) [i..<K])\<rparr>)"
  using assms
proof (induction "K - i" arbitrary: i t)
  case 0
  then have iK: "i = K" by simp
  from 0(2) have m: "maxiter t = maxiter s" "tol_du t = tol_du s" by (simp_all add: frame_sel)
  have "K = nat (maxiter s) \<longrightarrow> \<not> int K < maxiter s" by arith
  then have "\<not> (py_less be (tol_du t) (fst (newton_iterate be prm A0 s i)) \<and> int i < maxiter t)"
    using 0(7) iK m by auto
  then have "newton_loop be prm A0 (int i) (fst (newton_iterate be prm A0 s i))
           (fst (snd (newton_iterate be prm A0 s i))) t = (Inr (), t)"
    by (rule newton_loop_stop)
  moreover have "t\<lparr>field := Some (snd (snd (newton_iterate be prm A0 s K))),
                   trace := trace t @ concat (map (newton_events be prm A0 s) [i..<K])\<rparr> = t"
    using 0(8) iK by simp
  ultimately show ?case by simp
next
  case (Suc d)
  then have lt: "i < K" by simp
  note fr = \<open>frame s t\<close>
  from fr have m: "maxiter t = maxiter s" "tol_du t = tol_du s" "sym_factor t = sym_factor s"
    "n t = n s" "relaxation_parameter t = relaxation_parameter s" "alpha t = alpha s"
    by (simp_all add: frame_sel)
  obtain dn u f where it: "newton_iterate be prm A0 s i = (dn, u, f)"
    by (cases "newton_iterate be prm A0 s i") auto
  obtain x err where r: "newton_round be prm A0 s u f = (x, err)"
    by (cases "newton_round be prm A0 s u f")
  from Suc.prems(5) lt it r have err: "err = None" by auto
  from Suc.prems(4) lt it have c1: "py_less be (tol_du t) dn" by (auto simp add: m)
  from lt Suc.prems(3) have c2: "int i < maxiter t" by (simp add: m)
  from Suc.prems(7) it have c3: "field t = Some f" by simp
  from r err fr have c4: "newton_round be prm A0 t u f = (x, None)"
    by (simp add: newton_round_frame)
  let ?t' = "emit [IterationReport (int i + 1) (norm_linf be x)]
           ((emit [Assembled (sym_factor t) (Form_A1 (n t) f),
                     Assembled (sym_factor t) (Form_B_newton (alpha t) (n t) f), Solved prm] t)
              \<lparr>field := Some (incremented be f (relaxation_parameter t) x)\<rparr>)"
  have nxt: "newton_iterate be prm A0 s (Suc i)
      = (norm_linf be x, x, incremented be f (relaxation_parameter s) x)"
    using it r by simp
  have step: "newton_loop be prm A0 (int i) dn u t =
       newton_loop be prm A0 (int (Suc i)) (fst (newton_iterate be prm A0 s (Suc i)))
         (fst (snd (newton_iterate be prm A0 s (Suc i)))) ?t'"
    using newton_loop_step [OF c1 c2 c3 c4] nxt by (simp add: add.commute)
  have fr': "frame s ?t'" using fr by (intro frame_after)
  have fld': "field ?t' = Some (snd (snd (newton_iterate be prm A0 s (Suc i))))"
    using nxt by (simp add: m)
  have d: "d = K - Suc i" using Suc.hyps(2) by simp
  have a1: "Suc i \<le> K" using lt by simp
  have a4: "\<forall>k. Suc i \<le> k \<and> k < K \<longrightarrow> py_less be (tol_du s) (fst (newton_iterate be prm A0 s k))"
    using Suc.prems(4) by simp
  have a5: "\<forall>k. Suc i \<le> k \<and> k < K \<longrightarrow>
           snd (newton_round be prm A0 s (fst (snd (newton_iterate be prm A0 s k)))
                  (snd (snd (newton_iterate be prm A0 s k)))) = None"
    using Suc.prems(5) by simp
  note ih = Suc.hyps(1) [OF d fr' a1 Suc.prems(3) a4 a5 Suc.prems(6) fld']
  have ev: "trace ?t' = trace t @ newton_events be prm A0 s i"
    using it nxt by (simp add: newton_events_def m)
  have up: "[i..<K] = i # [Suc i..<K]" using lt by (simp add: upt_conv_Cons)
  have fin: "?t'\<lparr>field := Some (snd (snd (newton_iterate be prm A0 s K))),
                   trace := trace ?t' @ concat (map (newton_events be prm A0 s) [Suc i..<K])\<rparr>
      = t\<lparr>field := Some (snd (snd (newton_iterate be prm A0 s K))),
                   trace := trace t @ concat (map (newton_events be prm A0 s) [i..<K])\<rparr>"
    unfolding ev up by (simp add: emit_def)
  show ?case
    using step ih fin it by simp
qed

lemma picard_inv:
  "frame s (snd (picard be solver_method preconditioner s))
   \<and> solves (snd (picard be solver_method preconditioner s)) \<le> solves s + nat (maxiter s)
   \<and> field (snd (picard be solver_method preconditioner s)) \<noteq> None"
proof -
  let ?s1 = "(emit [KrylovSolver solver_method preconditioner, Assembled (sym_factor s) Form_A0,
                      Interpolated_constant (field_min s)] s)
                 \<lparr>field := Some (interpolate_constant be (field_min s))\<rparr>"
  have p: "picard be solver_method preconditioner s =
     picard_loop be (krylov solver_method preconditioner s) (assemble be (sym_factor s) Form_A0) 0
       (py_number be 1) (new_function be) ?s1"
    by (simp add: picard_def Let_def)
  note inv = picard_loop_inv [of ?s1 be "krylov solver_method preconditioner s"
      "assemble be (sym_factor s) Form_A0" 0 "py_number be 1" "new_function be"]
  from inv have "frame s (snd (picard be solver_method preconditioner s))"
    unfolding p by (blast dest: frame_step)
  moreover from inv
  have "solves (snd (picard be solver_method preconditioner s)) \<le> solves s + nat (maxiter s)"
    unfolding p by simp
  moreover from inv have "field (snd (picard be solver_method preconditioner s)) \<noteq> None"
    unfolding p by simp
  ultimately show ?thesis by blast
qed

lemma newton_inv:
  "frame s (snd (newton be solver_method preconditioner s))
   \<and> solves (snd (newton be solver_method preconditioner s)) \<le> solves s + nat (maxiter s)
   \<and> field (snd (newton be solver_method preconditioner s)) \<noteq> None"
proof -
  let ?s1 = "(emit [KrylovSolver solver_method preconditioner, Assembled (sym_factor s) Form_A0,
                      Interpolated_constant (field_min s)] s)
                 \<lparr>field := Some (interpolate_constant be (field_min s))\<rparr>"
  have p: "newton be solver_method preconditioner s =
     newton_loop be (krylov solver_method preconditioner s) (assemble be (sym_factor s) Form_A0) 0
       (py_number be 1) (new_function be) ?s1"
    by (simp add: newton_def Let_def)
  note inv = newton_loop_inv [of ?s1 be "krylov solver_method preconditioner s"
      "assemble be (sym_factor s) Form_A0" 0 "py_number be 1" "new_function be"]
  from inv have "frame s (snd (newton be solver_method preconditioner s))"
    unfolding p by (blast dest: frame_step)
  moreover from inv
  have "solves (snd (newton be solver_method preconditioner s)) \<le> solves s + nat (maxiter s)"
    unfolding p by simp
  moreover from inv have "field (snd (newton be solver_method preconditioner s)) \<noteq> None"
    unfolding p by simp
  ultimately show ?thesis by blast
qed

lemma picard_exact:
  assumes "K \<le> nat (maxiter s)"
    and "\<forall>k<K. py_less be (tol_du s) (fst (picard_iterate be prm A0 s k))
            \<and> snd (picard_round be prm A0 s (fst (snd (picard_iterate be prm A0 s k)))
                    (snd (snd (picard_iterate be prm A0 s k)))) = None"
    and "K = nat (maxiter s) \<or> \<not> py_less be (tol_du s) (fst (picard_iterate be prm A0 s K))"
    and "prm = krylov solver_method preconditioner s"
    and "A0 = assemble be (sym_factor s) Form_A0"
  shows "picard be solver_method preconditioner s =
      (Inr (), s\<lparr>field := Some (snd (snd (picard_iterate be prm A0 s K))),
                 trace := trace s @ [KrylovSolver solver_method preconditioner,
                                     Assembled (sym_factor s) Form_A0,
                                     Interpolated_constant (field_min s)]
                          @ concat (map (picard_events be prm A0 s) [0..<K])\<rparr>)"
proof -
  let ?s1 = "(emit [KrylovSolver solver_method preconditioner, Assembled (sym_factor s) Form_A0,
                      Interpolated_constant (field_min s)] s)
                 \<lparr>field := Some (interpolate_constant be (field_min s))\<rparr>"
  have p: "picard be solver_method preconditioner s =
     picard_loop be prm A0 (int 0) (fst (picard_iterate be prm A0 s 0))
       (fst (snd (picard_iterate be prm A0 s 0))) ?s1"
    by (simp add: picard_def Let_def assms(4,5))
  have fr: "frame s ?s1" by (intro frame_after) simp
  have fld: "field ?s1 = Some (snd (snd (picard_iterate be prm A0 s 0)))" by simp
  have a4: "\<forall>k. 0 \<le> k \<and> k < K \<longrightarrow> py_less be (tol_du s) (fst (picard_iterate be prm A0 s k))"
    using assms(2) by simp
  have a5: "\<forall>k. 0 \<le> k \<and> k < K \<longrightarrow>
           snd (picard_round be prm A0 s (fst (snd (picard_iterate be prm A0 s k)))
                  (snd (snd (picard_iterate be prm A0 s k)))) = None"
    using assms(2) by simp
  have z: "(0::nat) \<le> K" by simp
  note run = picard_loop_run [OF fr z assms(1) a4 a5 assms(3) fld]
  have "?s1\<lparr>field := Some (snd (snd (picard_iterate be prm A0 s K))),
             trace := trace ?s1 @ concat (map (picard_events be prm A0 s) [0..<K])\<rparr>
      = s\<lparr>field := Some (snd (snd (picard_iterate be prm A0 s K))),
                 trace := trace s @ [KrylovSolver solver_method preconditioner,
                                     Assembled (sym_factor s) Form_A0,
                                     Interpolated_constant (field_min s)]
                          @ concat (map (picard_events be prm A0 s) [0..<K])\<rparr>"
    by (simp add: emit_def)
  with run p show ?thesis by simp
qed

lemma newton_exact:
  assumes "K \<le> nat (maxiter s)"
    and "\<forall>k<K. py_less be (tol_du s) (fst (newton_iterate be prm A0 s k))
            \<and> snd (newton_round be prm A0 s (fst (snd (newton_iterate be prm A0 s k)))
                    (snd (snd (newton_iterate be prm A0 s k)))) = None"
    and "K = nat (maxiter s) \<or> \<not> py_less be (tol_du s) (fst (newton_iterate be prm A0 s K))"
    and "prm = krylov solver_method preconditioner s"
    and "A0 = assemble be (sym_factor s) Form_A0"
  shows "newton be solver_method preconditioner s =
      (Inr (), s\<lparr>field := Some (snd (snd (newton_iterate be prm A0 s K))),
                 trace := trace s @ [KrylovSolver solver_method preconditioner,
                                     Assembled (sym_factor s) Form_A0,
                                     Interpolated_constant (field_min s)]
                          @ concat (map (newton_events be prm A0 s) [0..<K])\<rparr>)"
proof -
  let ?s1 = "(emit [KrylovSolver solver_method preconditioner, Assembled (sym_factor s) Form_A0,
                      Interpolated_constant (field_min s)] s)
                 \<lparr>field := Some (interpolate_constant be (field_min s))\<rparr>"
  have p: "newton be solver_method preconditioner s =
     newton_loop be prm A0 (int 0) (fst (newton_iterate be prm A0 s 0))
       (fst (snd (newton_iterate be prm A0 s 0))) ?s1"
    by (simp add: newton_def Let_def assms(4,5))
  have fr: "frame s ?s1" by (intro frame_after) simp
  have fld: "field ?s1 = Some (snd (snd (newton_iterate be prm A0 s 0)))" by simp
  have a4: "\<forall>k. 0 \<le> k \<and> k < K \<longrightarrow> py_less be (tol_du s) (fst (newton_iterate be prm A0 s k))"
    using assms(2) by simp
  have a5: "\<forall>k. 0 \<le> k \<and> k < K \<longrightarrow>
           snd (newton_round be prm A0 s (fst (snd (newton_iterate be prm A0 s k)))
                  (snd (snd (newton_iterate be prm A0 s k)))) = None"
    using assms(2) by simp
  have z: "(0::nat) \<le> K" by simp
  note run = newton_loop_run [OF fr z assms(1) a4 a5 assms(3) fld]
  have "?s1\<lparr>field := Some (snd (snd (newton_iterate be prm A0 s K))),
             trace := trace ?s1 @ concat (map (newton_events be prm A0 s) [0..<K])\<rparr>
      = s\<lparr>field := Some (snd (snd (newton_iterate be prm A0 s K))),
                 trace := trace s @ [KrylovSolver solver_method preconditioner,
                                     Assembled (sym_factor s) Form_A0,
                                     Interpolated_constant (field_min s)]
                          @ concat (map (newton_events be prm A0 s) [0..<K])\<rparr>"
    by (simp add: emit_def)
  with run p show ?thesis by simp
qed

text \<open>
  Claim C2. The number of linear solves that \<^verbatim>\<open>picard\<close> and \<^verbatim>\<open>newton\<close> issue, one in
  each round of the outer loop, is at most \<open>maxiter\<close>. The run of each method is fixed
  round by round by the iterates \<open>picard_iterate\<close> and \<open>newton_iterate\<close>: let
  \<open>K \<le> maxiter\<close> be such that \<open>du_norm\<close> is above \<open>tol_du\<close> before each of the rounds
  \<open>0, ..., K - 1\<close>, the linear solve of none of these rounds raises, and either
  \<open>K = maxiter\<close> or \<open>du_norm\<close> is not above \<open>tol_du\<close> after \<open>K\<close> rounds. Then the method
  returns normally after exactly \<open>K\<close> rounds, the field it leaves in the solver is the
  iterate number \<open>K\<close>, nothing else of the solver changes, and the trace gains the
  set-up and the \<open>K\<close> rounds, each with one linear solve and one report. For
  \<open>K = maxiter\<close> this holds whatever \<open>du_norm\<close> is after the last round: running out of
  rounds above \<open>tol_du\<close> raises nothing and leaves the last iterate in the solver.
\<close>

theorem outer_loop_bounded_and_silent:
  "solves (snd (picard be solver_method preconditioner s)) \<le> solves s + nat (maxiter s)
   \<and> solves (snd (newton be solver_method preconditioner s)) \<le> solves s + nat (maxiter s)
   \<and> (K \<le> nat (maxiter s)
      \<and> (\<forall>k<K. py_less be (tol_du s)
                  (fst (picard_iterate be (krylov solver_method preconditioner s)
                          (assemble be (sym_factor s) Form_A0) s k))
               \<and> snd (picard_round be (krylov solver_method preconditioner s)
                        (assemble be (sym_factor s) Form_A0) s
                        (fst (snd (picard_iterate be (krylov solver_method preconditioner s)
                                     (assemble be (sym_factor s) Form_A0) s k)))
                        (snd (snd (picard_iterate be (krylov solver_method preconditioner s)
                                     (assemble be (sym_factor s) Form_A0) s k)))) = None)
      \<and> (K = nat (maxiter s)
           \<or> \<not> py_less be (tol_du s)
                 (fst (picard_iterate be (krylov solver_method preconditioner s)
                         (assemble be (sym_factor s) Form_A0) s K)))
      \<longrightarrow> picard be solver_method preconditioner s =
            (Inr (),
             s\<lparr>field := Some (snd (snd (picard_iterate be (krylov solver_method preconditioner s)
                                          (assemble be (sym_factor s) Form_A0) s K))),
               trace := trace s @ [KrylovSolver solver_method preconditioner,
                                   Assembled (sym_factor s) Form_A0,
                                   Interpolated_constant (field_min s)]
                        @ concat (map (picard_events be (krylov solver_method preconditioner s)
                                         (assemble be (sym_factor s) Form_A0) s) [0..<K])\<rparr>))
   \<and> (K \<le> nat (maxiter s)
      \<and> (\<forall>k<K. py_less be (tol_du s)
                  (fst (newton_iterate be (krylov solver_method preconditioner s)
                          (assemble be (sym_factor s) Form_A0) s k))
               \<and> snd (newton_round be (krylov solver_method preconditioner s)
                        (assemble be (sym_factor s) Form_A0) s
                        (fst (snd (newton_iterate be (krylov solver_method preconditioner s)
                                     (assemble be (sym_factor s) Form_A0) s k)))
                        (snd (snd (newton_iterate be (krylov solver_method preconditioner s)
                                     (assemble be (sym_factor s) Form_A0) s k)))) = None)
      \<and> (K = nat (maxiter s)
           \<or> \<not> py_less be (tol_du s)
                 (fst (newton_iterate be (krylov solver_method preconditioner s)
                         (assemble be (sym_factor s) Form_A0) s K)))
      \<longrightarrow> newton be solver_method preconditioner s =
            (Inr (),
             s\<lparr>field := Some (snd (snd (newton_iterate be (krylov solver_method preconditioner s)
                                          (assemble be (sym_factor s) Form_A0) s K))),
               trace := trace s @ [KrylovSolver solver_method preconditioner,
                                   Assembled (sym_factor s) Form_A0,
                                   Interpolated_constant (field_min s)]
                        @ concat (map (newton_events be (krylov solver_method preconditioner s)
                                         (assemble be (sym_factor s) Form_A0) s) [0..<K])\<rparr>))"
proof (intro conjI impI)
  show "solves (snd (picard be solver_method preconditioner s)) \<le> solves s + nat (maxiter s)"
    using picard_inv [of s be solver_method preconditioner] by blast
  show "solves (snd (newton be solver_method preconditioner s)) \<le> solves s + nat (maxiter s)"
    using newton_inv [of s be solver_method preconditioner] by blast
next
  let ?prm = "krylov solver_method preconditioner s"
  let ?A0 = "assemble be (sym_factor s) Form_A0"
  assume h: "K \<le> nat (maxiter s)
      \<and> (\<forall>k<K. py_less be (tol_du s) (fst (picard_iterate be ?prm ?A0 s k))
               \<and> snd (picard_round be ?prm ?A0 s (fst (snd (picard_iterate be ?prm ?A0 s k)))
                        (snd (snd (picard_iterate be ?prm ?A0 s k)))) = None)
      \<and> (K = nat (maxiter s) \<or> \<not> py_less be (tol_du s) (fst (picard_iterate be ?prm ?A0 s K)))"
  show "picard be solver_method preconditioner s =
            (Inr (),
             s\<lparr>field := Some (snd (snd (picard_iterate be ?prm ?A0 s K))),
               trace := trace s @ [KrylovSolver solver_method preconditioner,
                                   Assembled (sym_factor s) Form_A0,
                                   Interpolated_constant (field_min s)]
                        @ concat (map (picard_events be ?prm ?A0 s) [0..<K])\<rparr>)"
    by (rule picard_exact [OF _ _ _ refl refl]) (use h in blast)+
next
  let ?prm = "krylov solver_method preconditioner s"
  let ?A0 = "assemble be (sym_factor s) Form_A0"
  assume h: "K \<le> nat (maxiter s)
      \<and> (\<forall>k<K. py_less be (tol_du s) (fst (newton_iterate be ?prm ?A0 s k))
               \<and> snd (newton_round be ?prm ?A0 s (fst (snd (newton_iterate be ?prm ?A0 s k)))
                        (snd (snd (newton_iterate be ?prm ?A0 s k)))) = None)
      \<and> (K = nat (maxiter s) \<or> \<not> py_less be (tol_du s) (fst (newton_iterate be ?prm ?A0 s K)))"
  show "newton be solver_method preconditioner s =
            (Inr (),
             s\<lparr>field := Some (snd (snd (newton_iterate be ?prm ?A0 s K))),
               trace := trace s @ [KrylovSolver solver_method preconditioner,
                                   Assembled (sym_factor s) Form_A0,
                                   Interpolated_constant (field_min s)]
                        @ concat (map (newton_events be ?prm ?A0 s) [0..<K])\<rparr>)"
    by (rule newton_exact [OF _ _ _ refl refl]) (use h in blast)+
qed

lemma toy_picard_1:
  "picard_iterate (toy d tag vs) prm 1 toy_solver (Suc 0) = (1 / 2, [1 / 2], [1 / 2])"
  "picard_round (toy d tag vs) prm 1 toy_solver [0] [1] = ([1 / 2], None)"
  by (simp_all add: picard_round_def)

lemma toy_newton_1:
  "newton_iterate (toy d tag vs) prm 1 toy_solver (Suc 0) = (1 / 2, [1 / 2], [3 / 2])"
  "newton_round (toy d tag vs) prm 1 toy_solver [0] [1] = ([1 / 2], None)"
  by (simp_all add: newton_round_def)

theorem outer_loop_witness:
  "maxiter toy_solver = 1
   \<and> py_less (toy 2 ''cylinder slice'' []) (tol_du toy_solver) (1 / 2)
   \<and> picard (toy 2 ''cylinder slice'' []) ''cg'' ''default'' toy_solver =
       (Inr (), toy_solver\<lparr>field := Some [1 / 2],
          trace := [KrylovSolver ''cg'' ''default'', Assembled Constant_1 Form_A0,
                    Interpolated_constant 1,
                    Assembled Constant_1 (Form_A1 0 [1]),
                    Assembled Constant_1 (Form_B_picard 0 [1]),
                    Solved (krylov ''cg'' ''default'' toy_solver),
                    IterationReport 1 (1 / 2)]\<rparr>)
   \<and> newton (toy 2 ''cylinder slice'' []) ''cg'' ''default'' toy_solver =
       (Inr (), toy_solver\<lparr>field := Some [3 / 2],
          trace := [KrylovSolver ''cg'' ''default'', Assembled Constant_1 Form_A0,
                    Interpolated_constant 1,
                    Assembled Constant_1 (Form_A1 0 [1]),
                    Assembled Constant_1 (Form_B_newton 1 0 [1]),
                    Solved (krylov ''cg'' ''default'' toy_solver),
                    IterationReport 1 (1 / 2)]\<rparr>)"
  using outer_loop_bounded_and_silent
      [of "toy 2 ''cylinder slice'' []" "''cg''" "''default''" toy_solver 1]
  by (simp add: toy_picard_1 toy_newton_1 picard_events_def newton_events_def)

lemma toy_picard_run:
  "picard (toy d tag vs) ''cg'' ''default'' toy_solver =
       (Inr (), toy_solver\<lparr>field := Some [1 / 2],
          trace := [KrylovSolver ''cg'' ''default'', Assembled Constant_1 Form_A0,
                    Interpolated_constant 1,
                    Assembled Constant_1 (Form_A1 0 [1]),
                    Assembled Constant_1 (Form_B_picard 0 [1]),
                    Solved (krylov ''cg'' ''default'' toy_solver),
                    IterationReport 1 (1 / 2)]\<rparr>)"
  by (simp add: picard_def picard_loop.simps emit_def krylov_def Let_def)

subsection \<open>Derived fields and the Picard solve\<close>

lemma picard_field: "field (snd (picard be solver_method preconditioner s)) \<noteq> None"
  using picard_inv [of s be solver_method preconditioner] by blast

lemma picard_frame: "frame s (snd (picard be solver_method preconditioner s))"
  using picard_inv [of s be solver_method preconditioner] by blast

lemma grad_vector_trigger:
  assumes "field s = None"
  shows "calc_field_grad_vector be solver_method preconditioner s =
     (case picard be ''cg'' ''default'' s of
        (Inl e, s1) \<Rightarrow> (Inl e, s1)
      | (Inr u, s1) \<Rightarrow> calc_field_grad_vector be solver_method preconditioner s1)"
proof -
  obtain r s1 where p: "picard be ''cg'' ''default'' s = (r, s1)"
    by (cases "picard be ''cg'' ''default'' s")
  with picard_field [of be "''cg''" "''default''" s] have "field s1 \<noteq> None" by simp
  with assms p show ?thesis
    by (cases r) (auto simp add: calc_field_grad_vector_def)
qed

lemma grad_mag_trigger:
  assumes "field s = None"
  shows "calc_field_grad_mag be solver_method preconditioner s =
     (case picard be ''cg'' ''default'' s of
        (Inl e, s1) \<Rightarrow> (Inl e, s1)
      | (Inr u, s1) \<Rightarrow> calc_field_grad_mag be solver_method preconditioner s1)"
proof -
  obtain r s1 where p: "picard be ''cg'' ''default'' s = (r, s1)"
    by (cases "picard be ''cg'' ''default'' s")
  with picard_field [of be "''cg''" "''default''" s] have "field s1 \<noteq> None" by simp
  with assms p show ?thesis
    by (cases r) (auto simp add: calc_field_grad_mag_def)
qed

lemma residual_trigger:
  assumes "field s = None"
  shows "calc_field_residual be solver_method preconditioner s =
     (case picard be ''cg'' ''default'' s of
        (Inl e, s1) \<Rightarrow> (Inl e, s1)
      | (Inr u, s1) \<Rightarrow> calc_field_residual be solver_method preconditioner s1)"
proof -
  obtain r s1 where p: "picard be ''cg'' ''default'' s = (r, s1)"
    by (cases "picard be ''cg'' ''default'' s")
  with picard_field [of be "''cg''" "''default''" s] have "field s1 \<noteq> None" by simp
  with assms p show ?thesis
    by (cases r) (auto simp add: calc_field_residual_def)
qed

lemma potential_trigger:
  assumes "field s = None"
  shows "calc_potential_derivative be solver_method preconditioner s =
     (case picard be ''cg'' ''default'' s of
        (Inl e, s1) \<Rightarrow> (Inl e, s1)
      | (Inr u, s1) \<Rightarrow> calc_potential_derivative be solver_method preconditioner s1)"
proof -
  obtain r s1 where p: "picard be ''cg'' ''default'' s = (r, s1)"
    by (cases "picard be ''cg'' ''default'' s")
  with picard_field [of be "''cg''" "''default''" s] have "field s1 \<noteq> None" by simp
  with assms p show ?thesis
    by (cases r) (auto simp add: calc_potential_derivative_def)
qed

lemma laplacian_trigger:
  assumes "field s = None" and "field_grad s = None"
  shows "calc_laplacian be solver_method preconditioner s =
     (case picard be ''cg'' ''default'' s of
        (Inl e, s1) \<Rightarrow> (Inl e, s1)
      | (Inr u, s1) \<Rightarrow> calc_laplacian be solver_method preconditioner s1)"
proof -
  obtain r s1 where p: "picard be ''cg'' ''default'' s = (r, s1)"
    by (cases "picard be ''cg'' ''default'' s")
  with picard_field [of be "''cg''" "''default''" s] have f: "field s1 \<noteq> None" by simp
  from p picard_frame [of s be "''cg''" "''default''"] have "frame s s1" by simp
  with assms(2) have g: "field_grad s1 = None" by (simp add: frame_sel)
  from assms p f g show ?thesis
    by (cases r) (auto simp add: calc_laplacian_def calc_field_grad_vector_def)
qed

lemma laplacian_no_trigger:
  "field_grad s \<noteq> None \<Longrightarrow> field (snd (calc_laplacian be solver_method preconditioner s)) = field s"
  by (auto simp add: calc_laplacian_def Let_def emit_def split: option.splits)

lemma density_no_trigger:
  "field (snd (calc_density_field be s)) = field s
   \<and> solves (snd (calc_density_field be s)) = solves s"
  by (simp add: calc_density_field_def)

text \<open>
  \<^verbatim>\<open>calc_density_field\<close> on a solver without a field: it interpolates the density and
  returns; the field is still unset and no solve has been issued.
\<close>

theorem density_field_counterexample:
  "field toy_solver = None
   \<and> calc_density_field (toy 2 ''cylinder slice'' []) toy_solver =
       (Inr (), toy_solver\<lparr>p_field := Some [1], trace := [Interpolated_density]\<rparr>)"
  by (simp add: calc_density_field_def emit_def)

text \<open>
  Claim C8, as amended. On a solver whose field is unset, \<^verbatim>\<open>calc_field_grad_vector\<close>,
  \<^verbatim>\<open>calc_field_grad_mag\<close>, \<^verbatim>\<open>calc_field_residual\<close> and
  \<^verbatim>\<open>calc_potential_derivative\<close> behave as \<^verbatim>\<open>picard\<close> with its default arguments
  (\<open>cg\<close>, \<open>default\<close>) followed by the same operation on the resulting solver; an
  exception of the Picard solve ends the operation. \<^verbatim>\<open>calc_laplacian\<close> does so when the
  gradient is unset as well (it reaches the Picard solve through
  \<^verbatim>\<open>calc_field_grad_vector\<close>); with a gradient present it leaves the field as it is.
  \<^verbatim>\<open>calc_density_field\<close> never touches the field and issues no linear solve.
\<close>

theorem derived_fields_and_picard:
  "(field s = None \<longrightarrow>
      calc_field_grad_vector be solver_method preconditioner s =
        (case picard be ''cg'' ''default'' s of
           (Inl e, s1) \<Rightarrow> (Inl e, s1)
         | (Inr u, s1) \<Rightarrow> calc_field_grad_vector be solver_method preconditioner s1)
      \<and> calc_field_grad_mag be solver_method preconditioner s =
        (case picard be ''cg'' ''default'' s of
           (Inl e, s1) \<Rightarrow> (Inl e, s1)
         | (Inr u, s1) \<Rightarrow> calc_field_grad_mag be solver_method preconditioner s1)
      \<and> calc_field_residual be solver_method preconditioner s =
        (case picard be ''cg'' ''default'' s of
           (Inl e, s1) \<Rightarrow> (Inl e, s1)
         | (Inr u, s1) \<Rightarrow> calc_field_residual be solver_method preconditioner s1)
      \<and> calc_potential_derivative be solver_method preconditioner s =
        (case picard be ''cg'' ''default'' s of
           (Inl e, s1) \<Rightarrow> (Inl e, s1)
         | (Inr u, s1) \<Rightarrow> calc_potential_derivative be solver_method preconditioner s1))
   \<and> (field s = None \<and> field_grad s = None \<longrightarrow>
      calc_laplacian be solver_method preconditioner s =
        (case picard be ''cg'' ''default'' s of
           (Inl e, s1) \<Rightarrow> (Inl e, s1)
         | (Inr u, s1) \<Rightarrow> calc_laplacian be solver_method preconditioner s1))
   \<and> (field_grad s \<noteq> None \<longrightarrow>
      field (snd (calc_laplacian be solver_method preconditioner s)) = field s)
   \<and> field (snd (calc_density_field be s)) = field s
   \<and> solves (snd (calc_density_field be s)) = solves s"
  using grad_vector_trigger [of s be solver_method preconditioner] grad_mag_trigger [of s be solver_method preconditioner]
    residual_trigger [of s be solver_method preconditioner] potential_trigger [of s be solver_method preconditioner]
    laplacian_trigger [of s be solver_method preconditioner] laplacian_no_trigger [of s be solver_method preconditioner]
    density_no_trigger [of be s]
  by blast

text \<open>
  On the one-unknown backend: the trace of \<^verbatim>\<open>calc_field_grad_mag\<close> from a fresh solver
  begins with the events of the Picard solve and ends with the projection.
\<close>

theorem derived_fields_and_picard_witness:
  "field toy_solver = None \<and> field_grad toy_solver = None
   \<and> calc_field_grad_mag (toy 2 ''cylinder slice'' []) ''cg'' ''jacobi'' toy_solver =
       (Inr (), toy_solver\<lparr>field := Some [1 / 2], field_grad_mag := Some [1],
          trace := [KrylovSolver ''cg'' ''default'', Assembled Constant_1 Form_A0,
                    Interpolated_constant 1,
                    Assembled Constant_1 (Form_A1 0 [1]),
                    Assembled Constant_1 (Form_B_picard 0 [1]),
                    Solved (krylov ''cg'' ''default'' toy_solver),
                    IterationReport 1 (1 / 2),
                    KrylovSolver ''cg'' ''jacobi'',
                    Assembled Constant_1 (Form_b_grad_mag [1 / 2]),
                    Solved (krylov ''cg'' ''jacobi'' toy_solver)]\<rparr>)
   \<and> calc_laplacian (toy 2 ''cylinder slice'' []) ''richardson'' ''icc'' toy_solver =
        (case picard (toy 2 ''cylinder slice'' []) ''cg'' ''default'' toy_solver of
           (Inl e, s1) \<Rightarrow> (Inl e, s1)
         | (Inr u, s1) \<Rightarrow> calc_laplacian (toy 2 ''cylinder slice'' []) ''richardson'' ''icc'' s1)"
proof -
  have f: "field toy_solver = None" "field_grad toy_solver = None"
    by simp_all
  have p: "picard (toy 2 ''cylinder slice'' []) ''cg'' ''default'' toy_solver =
       (Inr (), toy_solver\<lparr>field := Some [1 / 2],
          trace := [KrylovSolver ''cg'' ''default'', Assembled Constant_1 Form_A0,
                    Interpolated_constant 1,
                    Assembled Constant_1 (Form_A1 0 [1]),
                    Assembled Constant_1 (Form_B_picard 0 [1]),
                    Solved (krylov ''cg'' ''default'' toy_solver),
                    IterationReport 1 (1 / 2)]\<rparr>)"
    by (rule toy_picard_run)
  from derived_fields_and_picard [of toy_solver "toy 2 ''cylinder slice'' []" "''cg''" "''jacobi''"] f
  have "calc_field_grad_mag (toy 2 ''cylinder slice'' []) ''cg'' ''jacobi'' toy_solver =
        (case picard (toy 2 ''cylinder slice'' []) ''cg'' ''default'' toy_solver of
           (Inl e, s1) \<Rightarrow> (Inl e, s1)
         | (Inr u, s1) \<Rightarrow> calc_field_grad_mag (toy 2 ''cylinder slice'' []) ''cg'' ''jacobi'' s1)"
    by blast
  then have g: "calc_field_grad_mag (toy 2 ''cylinder slice'' []) ''cg'' ''jacobi'' toy_solver =
       (Inr (), toy_solver\<lparr>field := Some [1 / 2], field_grad_mag := Some [1],
          trace := [KrylovSolver ''cg'' ''default'', Assembled Constant_1 Form_A0,
                    Interpolated_constant 1,
                    Assembled Constant_1 (Form_A1 0 [1]),
                    Assembled Constant_1 (Form_B_picard 0 [1]),
                    Solved (krylov ''cg'' ''default'' toy_solver),
                    IterationReport 1 (1 / 2),
                    KrylovSolver ''cg'' ''jacobi'',
                    Assembled Constant_1 (Form_b_grad_mag [1 / 2]),
                    Solved (krylov ''cg'' ''jacobi'' toy_solver)]\<rparr>)"
    unfolding p
    by (simp add: calc_field_grad_mag_def emit_def krylov_def Let_def)
  from derived_fields_and_picard [of toy_solver "toy 2 ''cylinder slice'' []" "''richardson''" "''icc''"] f
  have l: "calc_laplacian (toy 2 ''cylinder slice'' []) ''richardson'' ''icc'' toy_solver =
        (case picard (toy 2 ''cylinder slice'' []) ''cg'' ''default'' toy_solver of
           (Inl e, s1) \<Rightarrow> (Inl e, s1)
         | (Inr u, s1) \<Rightarrow> calc_laplacian (toy 2 ''cylinder slice'' []) ''richardson'' ''icc'' s1)"
    by blast
  from f g l show ?thesis by blast
qed

subsection \<open>Recomputation and the guards at the call sites\<close>

lemma cached_solver_sel [simp]:
  "alpha cached_solver = 1" "n cached_solver = 0" "mesh_dimension cached_solver = 2"
  "sym_factor cached_solver = Constant_1" "field_min cached_solver = 1"
  "field cached_solver = Some [1]" "field_grad_mag cached_solver = Some [0]"
  "residual cached_solver = Some [0]" "laplacian cached_solver = Some [0]"
  "potential_derivative cached_solver = Some [1]" "field_grad cached_solver = Some [0, 0]"
  "p_field cached_solver = Some [1]"
  "P cached_solver = 0" "A cached_solver = 1" "relaxation_parameter cached_solver = 1"
  "tol_du cached_solver = 1 / 10 ^ 14" "tol_rel_du cached_solver = 1 / 10 ^ 10"
  "maxiter cached_solver = 1" "trace cached_solver = []"
  by (simp_all add: cached_solver_def)

lemma scan_vertices_keeps:
  "field_grad_mag (snd (scan_vertices be subdomain bd tol vs m pp s)) = field_grad_mag s
   \<and> solves (snd (scan_vertices be subdomain bd tol vs m pp s)) = solves s"
  by (induction vs arbitrary: m pp s) (auto simp add: Let_def split: option.splits sum.splits)

lemma measure_fifth_force_cached:
  assumes "field_grad_mag s \<noteq> None"
  shows "field_grad_mag (snd (measure_fifth_force be subdomain bd tol s)) = field_grad_mag s
   \<and> solves (snd (measure_fifth_force be subdomain bd tol s)) = solves s"
proof (cases "sub_mesh be subdomain")
  case (Inl e)
  with assms show ?thesis by (auto simp add: measure_fifth_force_def)
next
  case (Inr vs)
  obtain r s2 where sc: "scan_vertices be subdomain bd tol vs (py_literal be ''0.0'') None
       (emit [SubMesh subdomain] s) = (r, s2)"
    by (cases "scan_vertices be subdomain bd tol vs (py_literal be ''0.0'') None
       (emit [SubMesh subdomain] s)")
  from scan_vertices_keeps [of be subdomain bd tol vs "py_literal be ''0.0''" None
      "emit [SubMesh subdomain] s"] sc
  have k: "field_grad_mag s2 = field_grad_mag s" "solves s2 = solves s" by simp_all
  from assms Inr sc have "snd (measure_fifth_force be subdomain bd tol s) = s2"
    by (auto simp add: measure_fifth_force_def split: sum.splits option.splits prod.splits)
  with k show ?thesis by simp
qed

lemma recompute_grad_vector:
  "field s = Some f \<Longrightarrow>
     field_grad (snd (calc_field_grad_vector be solver_method preconditioner s)) =
       Some (fst (krylov_solve be (krylov solver_method preconditioner s)
                    (assemble be (sym_factor s) Form_A_vector) (new_vector_function be)
                    (assemble be (sym_factor s) (Form_b_grad f))))
     \<and> solves (snd (calc_field_grad_vector be solver_method preconditioner s)) = solves s + 1"
  by (auto simp add: calc_field_grad_vector_def Let_def krylov_def split: option.splits)

lemma recompute_grad_mag:
  "field s = Some f \<Longrightarrow>
     field_grad_mag (snd (calc_field_grad_mag be solver_method preconditioner s)) =
       Some (fst (krylov_solve be (krylov solver_method preconditioner s) (A s)
                    (new_function be) (assemble be (sym_factor s) (Form_b_grad_mag f))))
     \<and> solves (snd (calc_field_grad_mag be solver_method preconditioner s)) = solves s + 1"
  by (auto simp add: calc_field_grad_mag_def Let_def krylov_def split: option.splits)

lemma recompute_potential:
  "field s = Some f \<Longrightarrow>
     potential_derivative (snd (calc_potential_derivative be solver_method preconditioner s)) =
       Some (fst (krylov_solve be (krylov solver_method preconditioner s) (A s)
                    (new_function be) (assemble be (sym_factor s) (Form_b_potential (n s) f))))
     \<and> solves (snd (calc_potential_derivative be solver_method preconditioner s)) = solves s + 1"
  by (auto simp add: calc_potential_derivative_def Let_def krylov_def solves_def emit_def split: option.splits)

lemma recompute_laplacian:
  "field_grad s = Some g \<Longrightarrow>
     laplacian (snd (calc_laplacian be solver_method preconditioner s)) =
       Some (fst (krylov_solve be (krylov solver_method preconditioner s) (A s)
                    (new_function be) (assemble be (sym_factor s) (Form_b_laplacian g))))
     \<and> solves (snd (calc_laplacian be solver_method preconditioner s)) = solves s + 1
     \<and> field_grad (snd (calc_laplacian be solver_method preconditioner s)) = Some g"
  by (auto simp add: calc_laplacian_def Let_def krylov_def solves_def emit_def split: option.splits)

lemma recompute_residual:
  "field s = Some f \<Longrightarrow> field_grad s = Some g \<Longrightarrow>
     residual (snd (calc_field_residual be solver_method preconditioner s)) =
       Some (fst (krylov_solve be (krylov solver_method preconditioner s) (A s)
                    (new_function be)
                    (assemble be (sym_factor s) (Form_b_residual (alpha s) (n s) g f))))
     \<and> solves (snd (calc_field_residual be solver_method preconditioner s)) = solves s + 1
     \<and> field_grad (snd (calc_field_residual be solver_method preconditioner s)) = Some g"
  by (auto simp add: calc_field_residual_def Let_def krylov_def solves_def emit_def split: option.splits)

lemma recompute_density:
  "calc_density_field be s =
     (Inr (), s\<lparr>p_field := Some (interpolate_density be),
                trace := trace s @ [Interpolated_density]\<rparr>)"
  by (simp add: calc_density_field_def emit_def)

lemma plot_fields_cached:
  "residual s \<noteq> None \<Longrightarrow> laplacian s \<noteq> None \<Longrightarrow> potential_derivative s \<noteq> None
   \<Longrightarrow> p_field s \<noteq> None \<Longrightarrow> plot_residual_slice_fields be s = (Inr (), s)"
  by (auto simp add: plot_residual_slice_fields_def)

text \<open>
  Two calls of \<^verbatim>\<open>calc_field_grad_mag\<close> in a row, from a fresh solver: the first issues
  the Picard solve and the projection (two linear solves) and fills the slot, the second
  issues a third linear solve although the slot is filled and no solve came in between.
\<close>

theorem recompute_counterexample:
  "field_grad_mag (snd (calc_field_grad_mag (toy 2 ''cylinder slice'' []) ''cg'' ''jacobi'' toy_solver)) = Some [1]
   \<and> solves (snd (calc_field_grad_mag (toy 2 ''cylinder slice'' []) ''cg'' ''jacobi'' toy_solver)) = 2
   \<and> solves (snd (calc_field_grad_mag (toy 2 ''cylinder slice'' []) ''cg'' ''jacobi''
        (snd (calc_field_grad_mag (toy 2 ''cylinder slice'' []) ''cg'' ''jacobi'' toy_solver)))) = 3"
  by (simp add: calc_field_grad_mag_def toy_picard_run emit_def krylov_def Let_def solves_def)

text \<open>
  Claim C3, as amended. A \<^verbatim>\<open>calc_\<close> method does not look at its own slot. Called on a
  solver with a field (for the Laplacian: with a gradient; for the residual: with
  both), each of the five projections issues exactly one more linear solve and
  overwrites its slot with the vector that this solve returns, whatever the slot held
  before; \<^verbatim>\<open>calc_density_field\<close> interpolates the density again and overwrites
  \<open>p_field\<close>. The test \<^verbatim>\<open>is None\<close> is made by the callers: \<^verbatim>\<open>measure_fifth_force\<close>
  with a gradient magnitude present leaves the slot unchanged and issues no linear solve;
  the first block of \<^verbatim>\<open>plot_residual_slice\<close> with its four fields present changes
  nothing at all; \<^verbatim>\<open>calc_laplacian\<close> and \<^verbatim>\<open>calc_field_residual\<close> with a gradient
  present leave the gradient unchanged.
\<close>

theorem derived_slots_recomputed:
  "(field s = Some f \<longrightarrow>
      field_grad (snd (calc_field_grad_vector be solver_method preconditioner s)) =
        Some (fst (krylov_solve be (krylov solver_method preconditioner s)
                     (assemble be (sym_factor s) Form_A_vector) (new_vector_function be)
                     (assemble be (sym_factor s) (Form_b_grad f))))
      \<and> solves (snd (calc_field_grad_vector be solver_method preconditioner s)) = solves s + 1
      \<and> field_grad_mag (snd (calc_field_grad_mag be solver_method preconditioner s)) =
        Some (fst (krylov_solve be (krylov solver_method preconditioner s) (A s)
                     (new_function be) (assemble be (sym_factor s) (Form_b_grad_mag f))))
      \<and> solves (snd (calc_field_grad_mag be solver_method preconditioner s)) = solves s + 1
      \<and> potential_derivative (snd (calc_potential_derivative be solver_method preconditioner s)) =
        Some (fst (krylov_solve be (krylov solver_method preconditioner s) (A s)
                     (new_function be) (assemble be (sym_factor s) (Form_b_potential (n s) f))))
      \<and> solves (snd (calc_potential_derivative be solver_method preconditioner s)) = solves s + 1)
   \<and> (field_grad s = Some g \<longrightarrow>
      laplacian (snd (calc_laplacian be solver_method preconditioner s)) =
        Some (fst (krylov_solve be (krylov solver_method preconditioner s) (A s)
                     (new_function be) (assemble be (sym_factor s) (Form_b_laplacian g))))
      \<and> solves (snd (calc_laplacian be solver_method preconditioner s)) = solves s + 1
      \<and> field_grad (snd (calc_laplacian be solver_method preconditioner s)) = Some g)
   \<and> (field s = Some f \<and> field_grad s = Some g \<longrightarrow>
      residual (snd (calc_field_residual be solver_method preconditioner s)) =
        Some (fst (krylov_solve be (krylov solver_method preconditioner s) (A s)
                     (new_function be)
                     (assemble be (sym_factor s) (Form_b_residual (alpha s) (n s) g f))))
      \<and> solves (snd (calc_field_residual be solver_method preconditioner s)) = solves s + 1
      \<and> field_grad (snd (calc_field_residual be solver_method preconditioner s)) = Some g)
   \<and> calc_density_field be s =
       (Inr (), s\<lparr>p_field := Some (interpolate_density be),
                  trace := trace s @ [Interpolated_density]\<rparr>)
   \<and> (field_grad_mag s \<noteq> None \<longrightarrow>
      field_grad_mag (snd (measure_fifth_force be subdomain boundary_distance tol s))
        = field_grad_mag s
      \<and> solves (snd (measure_fifth_force be subdomain boundary_distance tol s)) = solves s)
   \<and> (residual s \<noteq> None \<and> laplacian s \<noteq> None \<and> potential_derivative s \<noteq> None
        \<and> p_field s \<noteq> None \<longrightarrow>
      plot_residual_slice_fields be s = (Inr (), s))"
  using recompute_grad_vector [of s f be solver_method preconditioner]
    recompute_grad_mag [of s f be solver_method preconditioner]
    recompute_potential [of s f be solver_method preconditioner]
    recompute_laplacian [of s g be solver_method preconditioner]
    recompute_residual [of s f g be solver_method preconditioner]
    recompute_density [of be s]
    measure_fifth_force_cached [of s be subdomain boundary_distance tol]
    plot_fields_cached [of s be]
  by blast

text \<open>
  The solver with every slot filled, on the one-unknown backend: each method overwrites
  its slot with the result of a new solve.
\<close>

theorem derived_slots_recomputed_witness:
  "field cached_solver = Some [1] \<and> field_grad cached_solver = Some [0, 0]
   \<and> field_grad_mag cached_solver = Some [0] \<and> residual cached_solver = Some [0]
   \<and> laplacian cached_solver = Some [0] \<and> potential_derivative cached_solver = Some [1]
   \<and> p_field cached_solver = Some [1]
   \<and> field_grad (snd (calc_field_grad_vector (toy 2 ''cylinder slice'' [(2, 5, 0)]) ''cg''
          ''jacobi'' cached_solver)) = Some [1]
   \<and> field_grad_mag (snd (calc_field_grad_mag (toy 2 ''cylinder slice'' [(2, 5, 0)]) ''cg''
          ''jacobi'' cached_solver)) = Some [1]
   \<and> solves (snd (calc_field_grad_mag (toy 2 ''cylinder slice'' [(2, 5, 0)]) ''cg'' ''jacobi''
          cached_solver)) = solves cached_solver + 1
   \<and> laplacian (snd (calc_laplacian (toy 2 ''cylinder slice'' [(2, 5, 0)]) ''cg'' ''jacobi''
          cached_solver)) = Some [1]
   \<and> solves (snd (calc_laplacian (toy 2 ''cylinder slice'' [(2, 5, 0)]) ''cg'' ''jacobi''
          cached_solver)) = solves cached_solver + 1
   \<and> residual (snd (calc_field_residual (toy 2 ''cylinder slice'' [(2, 5, 0)]) ''cg'' ''jacobi''
          cached_solver)) = Some [1]
   \<and> solves (snd (calc_field_residual (toy 2 ''cylinder slice'' [(2, 5, 0)]) ''cg'' ''jacobi''
          cached_solver)) = solves cached_solver + 1
   \<and> solves (snd (measure_fifth_force (toy 2 ''cylinder slice'' [(2, 5, 0)]) 0 2 2
          cached_solver)) = solves cached_solver
   \<and> field_grad_mag (snd (measure_fifth_force (toy 2 ''cylinder slice'' [(2, 5, 0)]) 0 2 2
          cached_solver)) = Some [0]
   \<and> plot_residual_slice_fields (toy 2 ''cylinder slice'' [(2, 5, 0)]) cached_solver
        = (Inr (), cached_solver)"
  using derived_slots_recomputed [of cached_solver "[1]"
      "toy 2 ''cylinder slice'' [(2, 5, 0)]" "''cg''" "''jacobi''" "[0, 0]" 0 2 2]
  by simp

subsection \<open>The extremum search\<close>

lemma evaluations_emit [simp]:
  "evaluations (emit es s) = evaluations s @ filter is_evaluation es"
  by (simp add: evaluations_def emit_def)

lemma scan_step_out:
  "\<not> in_band be subdomain bd tol v \<Longrightarrow>
     scan_vertices be subdomain bd tol (v # vs) m0 pp s
       = scan_vertices be subdomain bd tol vs m0 pp (emit [ClosestEntity (coordinates v)] s)"
  by (auto simp add: in_band_def Let_def)

lemma scan_step_keep:
  "in_band be subdomain bd tol v \<Longrightarrow> field_grad_mag s = Some gm
   \<Longrightarrow> evaluate be gm (coordinates v) = Inr y \<Longrightarrow> \<not> py_less be m0 y \<Longrightarrow>
     scan_vertices be subdomain bd tol (v # vs) m0 pp s
       = scan_vertices be subdomain bd tol vs m0 pp
           (emit [ClosestEntity (coordinates v), Evaluated (coordinates v)] s)"
  by (auto simp add: in_band_def Let_def emit_emit)

lemma scan_step_take:
  "in_band be subdomain bd tol v \<Longrightarrow> field_grad_mag s = Some gm
   \<Longrightarrow> evaluate be gm (coordinates v) = Inr y \<Longrightarrow> py_less be m0 y \<Longrightarrow>
     scan_vertices be subdomain bd tol (v # vs) m0 pp s
       = scan_vertices be subdomain bd tol vs y (Some v)
           (emit [ClosestEntity (coordinates v), Evaluated (coordinates v)] s)"
  by (auto simp add: in_band_def Let_def emit_emit)

lemma scan_vertices_result:
  assumes "field_grad_mag s = Some gm"
    and "\<forall>v\<in>set vs. in_band be subdomain bd tol v
           \<longrightarrow> evaluate be gm (coordinates v) = Inr (ff v)"
  shows "\<exists>m' pp' s'. scan_vertices be subdomain bd tol vs m0 pp s = (Inr (m', pp'), s')
      \<and> evaluations s' = evaluations s
           @ map (\<lambda>v. Evaluated (coordinates v)) (filter (in_band be subdomain bd tol) vs)
      \<and> ((\<exists>v\<in>set vs. in_band be subdomain bd tol v \<and> py_less be m0 (ff v))
            \<longrightarrow> (\<exists>p\<in>set vs. pp' = Some p \<and> in_band be subdomain bd tol p \<and> ff p = m'))
      \<and> (\<not> (\<exists>v\<in>set vs. in_band be subdomain bd tol v \<and> py_less be m0 (ff v))
            \<longrightarrow> m' = m0 \<and> pp' = pp)"
  using assms
proof (induction vs arbitrary: m0 pp s)
  case Nil
  then show ?case by simp
next
  case (Cons v vs)
  let ?s1 = "emit [ClosestEntity (coordinates v)] s"
  let ?s2 = "emit [ClosestEntity (coordinates v), Evaluated (coordinates v)] s"
  from Cons.prems have evs: "\<forall>v\<in>set vs. in_band be subdomain bd tol v
           \<longrightarrow> evaluate be gm (coordinates v) = Inr (ff v)" by simp
  have g1: "field_grad_mag ?s1 = Some gm" and g2: "field_grad_mag ?s2 = Some gm"
    using Cons.prems(1) by simp_all
  show ?case
  proof (cases "in_band be subdomain bd tol v")
    case False
    from Cons.IH [OF g1 evs, of m0 pp] False show ?thesis
      unfolding scan_step_out [OF False] by auto
  next
    case True
    with Cons.prems have ev: "evaluate be gm (coordinates v) = Inr (ff v)" by simp
    show ?thesis
    proof (cases "py_less be m0 (ff v)")
      case False
      from Cons.IH [OF g2 evs, of m0 pp] False True show ?thesis
        unfolding scan_step_keep [OF True Cons.prems(1) ev False] by fastforce
    next
      case gt: True
      from Cons.IH [OF g2 evs, of "ff v" "Some v"]
      obtain m' pp' s' where r: "scan_vertices be subdomain bd tol vs (ff v) (Some v) ?s2
            = (Inr (m', pp'), s')"
        and e: "evaluations s' = evaluations ?s2
           @ map (\<lambda>v. Evaluated (coordinates v)) (filter (in_band be subdomain bd tol) vs)"
        and ex: "(\<exists>u\<in>set vs. in_band be subdomain bd tol u \<and> py_less be (ff v) (ff u))
            \<longrightarrow> (\<exists>p\<in>set vs. pp' = Some p \<and> in_band be subdomain bd tol p \<and> ff p = m')"
        and nex: "\<not> (\<exists>u\<in>set vs. in_band be subdomain bd tol u \<and> py_less be (ff v) (ff u))
            \<longrightarrow> m' = ff v \<and> pp' = Some v"
        by blast
      have "\<exists>p\<in>set (v # vs). pp' = Some p \<and> in_band be subdomain bd tol p \<and> ff p = m'"
        using ex nex True by auto
      with r e gt True show ?thesis
        unfolding scan_step_take [OF True Cons.prems(1) ev gt] by auto
    qed
  qed
qed

lemma scan_vertices_bound:
  assumes "field_grad_mag s = Some gm"
    and "\<forall>v\<in>set vs. in_band be subdomain bd tol v
           \<longrightarrow> evaluate be gm (coordinates v) = Inr (ff v)"
    and irrefl: "\<forall>x. \<not> py_less be x x"
    and trans: "\<forall>x y z. py_less be x y \<and> py_less be y z \<longrightarrow> py_less be x z"
    and "scan_vertices be subdomain bd tol vs m0 pp s = (Inr (m', pp'), s')"
  shows "(m' = m0 \<or> py_less be m0 m')
      \<and> (\<forall>v\<in>set vs. in_band be subdomain bd tol v \<longrightarrow> \<not> py_less be m' (ff v))"
  using assms(1,2,5)
proof (induction vs arbitrary: m0 pp s)
  case Nil
  then show ?case by simp
next
  case (Cons v vs)
  let ?s1 = "emit [ClosestEntity (coordinates v)] s"
  let ?s2 = "emit [ClosestEntity (coordinates v), Evaluated (coordinates v)] s"
  from Cons.prems have evs: "\<forall>v\<in>set vs. in_band be subdomain bd tol v
           \<longrightarrow> evaluate be gm (coordinates v) = Inr (ff v)" by simp
  have g1: "field_grad_mag ?s1 = Some gm" and g2: "field_grad_mag ?s2 = Some gm"
    using Cons.prems(1) by simp_all
  show ?case
  proof (cases "in_band be subdomain bd tol v")
    case False
    from Cons.prems(3) have "scan_vertices be subdomain bd tol vs m0 pp ?s1 = (Inr (m', pp'), s')"
      unfolding scan_step_out [OF False] .
    from Cons.IH [OF g1 evs this] False show ?thesis by simp
  next
    case True
    with Cons.prems have ev: "evaluate be gm (coordinates v) = Inr (ff v)" by simp
    show ?thesis
    proof (cases "py_less be m0 (ff v)")
      case False
      from Cons.prems(3) have "scan_vertices be subdomain bd tol vs m0 pp ?s2 = (Inr (m', pp'), s')"
        unfolding scan_step_keep [OF True Cons.prems(1) ev False] .
      from Cons.IH [OF g2 evs this]
      have a: "m' = m0 \<or> py_less be m0 m'"
        and b: "\<forall>v\<in>set vs. in_band be subdomain bd tol v \<longrightarrow> \<not> py_less be m' (ff v)"
        by simp_all
      from a False trans have "\<not> py_less be m' (ff v)" by blast
      with a b show ?thesis by simp
    next
      case gt: True
      from Cons.prems(3)
      have "scan_vertices be subdomain bd tol vs (ff v) (Some v) ?s2 = (Inr (m', pp'), s')"
        unfolding scan_step_take [OF True Cons.prems(1) ev gt] .
      from Cons.IH [OF g2 evs this]
      have a: "m' = ff v \<or> py_less be (ff v) m'"
        and b: "\<forall>v\<in>set vs. in_band be subdomain bd tol v \<longrightarrow> \<not> py_less be m' (ff v)"
        by simp_all
      from a gt trans have c: "py_less be m0 m'" by blast
      from a irrefl trans have "\<not> py_less be m' (ff v)" by blast
      with b c show ?thesis by simp
    qed
  qed
qed

lemma gradient_magnitude_ready_set:
  assumes "gradient_magnitude_ready be s = (Inr (), s1)"
  shows "field_grad_mag s1 \<noteq> None"
proof (cases "field_grad_mag s")
  case (Some gm)
  with assms show ?thesis by (simp add: gradient_magnitude_ready_def)
next
  case None
  with assms have c: "calc_field_grad_mag be ''cg'' ''jacobi'' s = (Inr (), s1)"
    by (simp add: gradient_magnitude_ready_def)
  then show ?thesis
    by (auto simp add: calc_field_grad_mag_def Let_def
        split: if_splits prod.splits sum.splits option.splits)
qed

lemma measure_fifth_force_scan:
  assumes "gradient_magnitude_ready be s = (Inr (), s1)"
    and "sub_mesh be subdomain = Inr vs"
    and "scan_vertices be subdomain bd tol vs (py_literal be ''0.0'') None
           (emit [SubMesh subdomain] s1) = (Inr (m, pp), s')"
  shows "measure_fifth_force be subdomain bd tol s =
           (case pp of
              None \<Rightarrow> Inl (Exception ''No vertex found. Try changing search parameters.'')
            | Some p \<Rightarrow> Inr (m, p), s')"
  using assms
  by (simp add: measure_fifth_force_def gradient_magnitude_ready_def split: option.splits)

text \<open>
  Claim C5, as amended. The band test is that of line 483,
  \<^verbatim>\<open>distance > boundary_distance - tol/2 and distance < boundary_distance + tol/2\<close>,
  strict at both ends and computed with the arithmetic and the comparison of the
  backend (\<open>in_band\<close>). Assume that the first step of the method, which computes the
  gradient magnitude when it is unset, succeeds and leaves the solver \<open>s1\<close>; that the
  sub-mesh of the subdomain exists, with vertices \<open>vs\<close>; that the gradient magnitude of
  \<open>s1\<close> evaluates without an exception at every vertex that passes the band test, to
  the value \<open>ff v\<close>; that the comparison \<^verbatim>\<open><\<close> of the backend is irreflexive and
  transitive; and that some vertex passing the band test has a value above \<^verbatim>\<open>0.0\<close>.
  Then the points at which the method evaluates the gradient magnitude are exactly the
  vertices that pass the band test, in the order of the sub-mesh; and the method returns
  a vertex \<open>p\<close> that passes the band test, together with its value, such that no vertex
  passing the band test has a value above that of \<open>p\<close>.
\<close>

theorem extremum_in_open_band:
  assumes "gradient_magnitude_ready be s = (Inr (), s1)"
    and "sub_mesh be subdomain = Inr vs"
    and "\<forall>v\<in>set vs. in_band be subdomain boundary_distance tol v
           \<longrightarrow> evaluate be (the (field_grad_mag s1)) (coordinates v) = Inr (ff v)"
    and "\<forall>x. \<not> py_less be x x"
    and "\<forall>x y z. py_less be x y \<and> py_less be y z \<longrightarrow> py_less be x z"
    and "\<exists>v\<in>set vs. in_band be subdomain boundary_distance tol v
           \<and> py_less be (py_literal be ''0.0'') (ff v)"
  shows "evaluations (snd (measure_fifth_force be subdomain boundary_distance tol s))
           = evaluations s1 @ map (\<lambda>v. Evaluated (coordinates v))
                                (filter (in_band be subdomain boundary_distance tol) vs)
     \<and> (\<exists>p\<in>set vs. fst (measure_fifth_force be subdomain boundary_distance tol s) = Inr (ff p, p)
            \<and> in_band be subdomain boundary_distance tol p
            \<and> (\<forall>v\<in>set vs. in_band be subdomain boundary_distance tol v
                  \<longrightarrow> \<not> py_less be (ff p) (ff v)))"
proof -
  from gradient_magnitude_ready_set [OF assms(1)]
  obtain gm where gm: "field_grad_mag s1 = Some gm" by blast
  then have g: "field_grad_mag (emit [SubMesh subdomain] s1) = Some gm" by simp
  from assms(3) gm have ev: "\<forall>v\<in>set vs. in_band be subdomain boundary_distance tol v
           \<longrightarrow> evaluate be gm (coordinates v) = Inr (ff v)" by simp
  from scan_vertices_result [OF g ev, of "py_literal be ''0.0''" None]
  obtain m' pp' s' where r: "scan_vertices be subdomain boundary_distance tol vs
        (py_literal be ''0.0'') None (emit [SubMesh subdomain] s1) = (Inr (m', pp'), s')"
    and e: "evaluations s' = evaluations (emit [SubMesh subdomain] s1)
           @ map (\<lambda>v. Evaluated (coordinates v))
               (filter (in_band be subdomain boundary_distance tol) vs)"
    and ex: "(\<exists>v\<in>set vs. in_band be subdomain boundary_distance tol v
                 \<and> py_less be (py_literal be ''0.0'') (ff v))
            \<longrightarrow> (\<exists>p\<in>set vs. pp' = Some p \<and> in_band be subdomain boundary_distance tol p
                    \<and> ff p = m')"
    by blast
  from scan_vertices_bound [OF g ev assms(4) assms(5) r]
  have ub: "\<forall>v\<in>set vs. in_band be subdomain boundary_distance tol v
              \<longrightarrow> \<not> py_less be m' (ff v)" by blast
  from ex assms(6) obtain p where p: "p \<in> set vs" "pp' = Some p"
    "in_band be subdomain boundary_distance tol p" "ff p = m'" by blast
  from measure_fifth_force_scan [OF assms(1) assms(2) r] p
  have m: "measure_fifth_force be subdomain boundary_distance tol s = (Inr (ff p, p), s')"
    by simp
  from e have "evaluations s' = evaluations s1 @ map (\<lambda>v. Evaluated (coordinates v))
                                (filter (in_band be subdomain boundary_distance tol) vs)"
    by simp
  with m p ub show ?thesis by auto
qed

lemma real_less_laws:
  "\<forall>x::real. \<not> x < x" "\<forall>(x::real) y z. x < y \<and> y < z \<longrightarrow> x < z"
  by auto

lemma toy_literal_zero [simp]: "toy_literal ''0.0'' = 0"
  by (simp add: toy_literal_def)

text \<open>
  Four vertices at distances 1, 2, 5/2 and 4 with values 9, 5, 7 and 20, searched at
  distance 2 with tolerance 2: the vertices at distances 2 and 5/2 are evaluated, and the
  answer is the vertex at distance 5/2.
\<close>

theorem extremum_in_open_band_witness:
  "gradient_magnitude_ready
       (toy 2 ''cylinder slice'' [(1, 9, 0), (2, 5, 0), (5 / 2, 7, 0), (4, 20, 0)])
       cached_solver = (Inr (), cached_solver)
   \<and> in_band (toy 2 ''cylinder slice'' [(1, 9, 0), (2, 5, 0), (5 / 2, 7, 0), (4, 20, 0)]) 0 2 2 (2, 5, 0)
   \<and> evaluations (snd (measure_fifth_force
            (toy 2 ''cylinder slice'' [(1, 9, 0), (2, 5, 0), (5 / 2, 7, 0), (4, 20, 0)])
            0 2 2 cached_solver)) = [Evaluated [2, 5, 0], Evaluated [5 / 2, 7, 0]]
   \<and> fst (measure_fifth_force
            (toy 2 ''cylinder slice'' [(1, 9, 0), (2, 5, 0), (5 / 2, 7, 0), (4, 20, 0)])
            0 2 2 cached_solver) = Inr (7, (5 / 2, 7, 0))"
proof -
  let ?be = "toy 2 ''cylinder slice'' [(1, 9, 0), (2, 5, 0), (5 / 2, 7, 0), (4, 20, 0)]"
  have r: "gradient_magnitude_ready ?be cached_solver = (Inr (), cached_solver)"
    by (simp add: gradient_magnitude_ready_def)
  have m: "sub_mesh ?be 0 = Inr [(1, 9, 0), (2, 5, 0), (5 / 2, 7, 0), (4, 20, 0)]" by simp
  have ev: "\<forall>v\<in>set [(1, 9, 0), (2, 5, 0), (5 / 2, 7, 0), (4, 20, 0)].
      in_band ?be 0 2 2 v
        \<longrightarrow> evaluate ?be (the (field_grad_mag cached_solver)) (coordinates v) = Inr (fst (snd v))"
    by (simp add: coordinates_def)
  have l1: "\<forall>x. \<not> py_less ?be x x" and
    l2: "\<forall>x y z. py_less ?be x y \<and> py_less ?be y z \<longrightarrow> py_less ?be x z"
    using real_less_laws by simp_all
  have ex: "\<exists>v\<in>set [(1, 9, 0), (2, 5, 0), (5 / 2, 7, 0), (4, 20, 0)].
      in_band ?be 0 2 2 v \<and> py_less ?be (py_literal ?be ''0.0'') (fst (snd v))"
    by (simp add: in_band_def)
  have b: "in_band ?be 0 2 2 (2, 5, 0)" by (simp add: in_band_def)
  have f: "filter (in_band ?be 0 2 2) [(1, 9, 0), (2, 5, 0), (5 / 2, 7, 0), (4, 20, 0)]
      = [(2, 5, 0), (5 / 2, 7, 0)]"
    by (simp add: in_band_def)
  have e0: "evaluations cached_solver = []" by (simp add: evaluations_def)
  from extremum_in_open_band [OF r m ev l1 l2 ex]
  have e: "evaluations (snd (measure_fifth_force ?be 0 2 2 cached_solver))
        = [Evaluated [2, 5, 0], Evaluated [5 / 2, 7, 0]]"
    and p: "\<exists>p\<in>set [(1, 9, 0), (2, 5, 0), (5 / 2, 7, 0), (4, 20, 0)].
        fst (measure_fifth_force ?be 0 2 2 cached_solver) = Inr (fst (snd p), p)
        \<and> in_band ?be 0 2 2 p
        \<and> (\<forall>v\<in>set [(1, 9, 0), (2, 5, 0), (5 / 2, 7, 0), (4, 20, 0)].
              in_band ?be 0 2 2 v \<longrightarrow> \<not> py_less ?be (fst (snd p)) (fst (snd v)))"
    unfolding f e0 by (simp_all add: coordinates_def)
  from p have "fst (measure_fifth_force ?be 0 2 2 cached_solver) = Inr (7, (5 / 2, 7, 0))"
    by (simp add: in_band_def)
  with r b e show ?thesis by blast
qed

lemma toy_measure_cached:
  "measure_fifth_force (toy d tag vs) 0 bd tol cached_solver =
     (case scan_vertices (toy d tag vs) 0 bd tol vs 0 None (emit [SubMesh 0] cached_solver) of
        (Inl e, s2) \<Rightarrow> (Inl e, s2)
      | (Inr (fifth_force_max, None), s2) \<Rightarrow>
          (Inl (Exception ''No vertex found. Try changing search parameters.''), s2)
      | (Inr (fifth_force_max, Some probe_point), s2) \<Rightarrow>
          (Inr (fifth_force_max, probe_point), s2))"
  by (simp add: measure_fifth_force_def)

text \<open>
  A vertex exactly at \<open>boundary_distance - tol/2\<close> with the largest value, 9, is passed
  over: the result is the inner vertex with value 5.
\<close>

theorem half_open_band_counterexample:
  "closest_distance (toy 2 ''cylinder slice'' [(1, 9, 0), (2, 5, 0)]) 0 (1, 9, 0) = 2 - 2 / 2
   \<and> evaluate (toy 2 ''cylinder slice'' [(1, 9, 0), (2, 5, 0)]) [0] (coordinates (1, 9, 0)) = Inr 9
   \<and> fst (measure_fifth_force (toy 2 ''cylinder slice'' [(1, 9, 0), (2, 5, 0)]) 0 2 2 cached_solver)
       = Inr (5, (2, 5, 0))"
  by (simp add: toy_measure_cached coordinates_def emit_def Let_def)




subsection \<open>The prober\<close>

lemma path_point_zero_direction:
  assumes "length g = length origin"
    and "\<forall>x\<in>set g. x = py_number be 0"
    and "\<forall>x\<in>set origin. py_add be (py_mul be (py_number be 0) (py_number be (int k))) x = x"
  shows "path_point be g k origin = origin"
  using assms
  by (induction g origin rule: list_induct2) (simp_all add: path_point_def)


lemma probe_loop_stuck:
  assumes "probe_loop (be :: ('r, 't) backend) (fn :: 'r list \<Rightarrow> error + 'a) g origin
             radial_limit r j vals v s = Some y"
  shows "\<not> (py_less be r radial_limit \<and> v = path_point be g j origin
            \<and> (\<forall>k>j. py_less be (linalg_norm be (path_point be g k origin)) radial_limit)
            \<and> (\<forall>k\<ge>j. \<exists>y0. fn (path_point be g k origin) = Inr y0))"
proof (rule probe_loop.raw_induct
    [where P = "\<lambda>be fn g origin radial_limit r j vals v s y.
        \<not> (py_less be r radial_limit \<and> v = path_point be g j origin
            \<and> (\<forall>k>j. py_less be (linalg_norm be (path_point be g k origin)) radial_limit)
            \<and> (\<forall>k\<ge>j. \<exists>y0. fn (path_point be g k origin) = Inr y0))",
     OF _ assms])
  fix pl :: "('r, 't) backend \<Rightarrow> ('r list \<Rightarrow> error + 'a) \<Rightarrow> 'r list \<Rightarrow> 'r list \<Rightarrow> 'r \<Rightarrow> 'r \<Rightarrow> nat
     \<Rightarrow> 'a list \<Rightarrow> 'r list \<Rightarrow> ('r, 't) solver \<Rightarrow> ((error + 'a list) \<times> ('r, 't) solver) option"
  fix be :: "('r, 't) backend" and fn :: "'r list \<Rightarrow> error + 'a"
  fix g origin radial_limit r j vals v s y
  assume IH: "\<And>be fn g origin radial_limit r j vals v s y.
      pl be fn g origin radial_limit r j vals v s = Some y \<Longrightarrow>
        \<not> (py_less be r radial_limit \<and> v = path_point be g j origin
            \<and> (\<forall>k>j. py_less be (linalg_norm be (path_point be g k origin)) radial_limit)
            \<and> (\<forall>k\<ge>j. \<exists>y0. fn (path_point be g k origin) = Inr y0))"
  assume body: "(if py_less be r radial_limit then
        (case fn v of
           Inl e \<Rightarrow> Some (Inl e, emit [Evaluated v] s)
         | Inr y \<Rightarrow>
             pl be fn g origin radial_limit
               (linalg_norm be (path_point be g (j + 1) origin))
               (j + 1)
               (vals @ [y])
               (path_point be g (j + 1) origin)
               (emit [Evaluated v] s))
      else Some (Inr vals, s)) = Some y"
  show "\<not> (py_less be r radial_limit \<and> v = path_point be g j origin
            \<and> (\<forall>k>j. py_less be (linalg_norm be (path_point be g k origin)) radial_limit)
            \<and> (\<forall>k\<ge>j. \<exists>y0. fn (path_point be g k origin) = Inr y0))"
  proof
    assume inv: "py_less be r radial_limit \<and> v = path_point be g j origin
            \<and> (\<forall>k>j. py_less be (linalg_norm be (path_point be g k origin)) radial_limit)
            \<and> (\<forall>k\<ge>j. \<exists>y0. fn (path_point be g k origin) = Inr y0)"
    then obtain y0 where y0: "fn (path_point be g j origin) = Inr y0" by blast
    from inv have r: "py_less be r radial_limit" and v: "v = path_point be g j origin"
      by simp_all
    from body have call: "pl be fn g origin radial_limit
        (linalg_norm be (path_point be g (j + 1) origin)) (j + 1)
        (vals @ [y0]) (path_point be g (j + 1) origin)
        (emit [Evaluated (path_point be g j origin)] s) = Some y"
      unfolding v by (simp only: r y0 if_True sum.case)
    have n1: "py_less be (linalg_norm be (path_point be g (j + 1) origin)) radial_limit"
      using inv by simp
    have n2: "\<forall>k>j + 1. py_less be (linalg_norm be (path_point be g k origin)) radial_limit"
      using inv by simp
    have n3: "\<forall>k\<ge>j + 1. \<exists>y0. fn (path_point be g k origin) = Inr y0"
      using inv by simp
    from IH [OF call] n1 n2 n3 show False by blast
  qed
qed

lemma probe_loop_diverges:
  assumes "py_less be r radial_limit"
    and "\<forall>k>j. py_less be (linalg_norm be (path_point be g k origin)) radial_limit"
    and "\<forall>k\<ge>j. \<exists>y0. fn (path_point be g k origin) = Inr y0"
  shows "probe_loop be fn g origin radial_limit r j vals (path_point be g j origin) s = None"
proof (cases "probe_loop be fn g origin radial_limit r j vals (path_point be g j origin) s")
  case None
  then show ?thesis .
next
  case (Some y)
  from probe_loop_stuck [OF Some] assms show ?thesis by blast
qed


lemma toy_norm_pair [simp]: "linalg_norm (toy d tag vs) [x, 0] = \<bar>x\<bar>"
  by simp

lemma toy_path_point:
  "path_point (toy d tag vs) [a, b] k [x, y] = [a * real k + x, b * real k + y]"
  by (simp add: path_point_def)



text \<open>
  Claim C6, as amended. When the direction or the origin does not have the dimension of
  the mesh, the method prints two lines and returns \<^verbatim>\<open>None\<close>; it raises nothing, and
  the trace gains no evaluation.
\<close>

theorem probe_dimension_mismatch:
  assumes "int (length gradient_vector) \<noteq> mesh_dimension s
           \<or> int (length origin) \<noteq> mesh_dimension s"
  shows "probe_function be fn gradient_vector origin radial_limit s
           = Some (Inr None,
                   emit [Message ''Vectors given have the wrong dimesion.'',
                         DimensionReport (mesh_dimension s) (length gradient_vector)
                           (length origin)] s)
         \<and> (\<forall>r s'. probe_function be fn gradient_vector origin radial_limit s = Some (r, s')
               \<longrightarrow> evaluations s' = evaluations s)"
  using assms by (auto simp add: probe_function_def evaluations_def emit_def)

text \<open>
  A direction with three components on a 2-D mesh.
\<close>

theorem probe_dimension_mismatch_witness:
  "int (length [1, 0, 0 :: real]) \<noteq> mesh_dimension toy_solver
   \<and> probe_function (toy 2 ''cylinder slice'' []) sum_probe [1, 0, 0] [0, 0] 1 toy_solver
       = Some (Inr None,
               emit [Message ''Vectors given have the wrong dimesion.'',
                     DimensionReport 2 3 2] toy_solver)"
proof -
  have h: "int (length [1, 0, 0 :: real]) \<noteq> mesh_dimension toy_solver"
    by simp
  then have "int (length [1, 0, 0 :: real]) \<noteq> mesh_dimension toy_solver
           \<or> int (length [0, 0 :: real]) \<noteq> mesh_dimension toy_solver" by simp
  from probe_dimension_mismatch [OF this, of "toy 2 ''cylinder slice'' []" sum_probe 1]
  have "probe_function (toy 2 ''cylinder slice'' []) sum_probe [1, 0, 0] [0, 0] 1 toy_solver
       = Some (Inr None,
               emit [Message ''Vectors given have the wrong dimesion.'',
                     DimensionReport (mesh_dimension toy_solver) (length [1, 0, 0 :: real])
                       (length [0, 0 :: real])] toy_solver)"
    by blast
  moreover have "mesh_dimension toy_solver = 2" by simp
  ultimately show ?thesis using h by (simp add: eval_nat_numeral)
qed

text \<open>
  The same call: its outcome is the returned value \<^verbatim>\<open>None\<close>, not an exception.
\<close>

theorem probe_returns_none_counterexample:
  "map_option fst (probe_function (toy 2 ''cylinder slice'' []) sum_probe [1, 0, 0] [0, 0] 1
      toy_solver) = Some (Inr None)"
  by (simp add: probe_function_def)

text \<open>
  The zero direction from \<open>[1/2, 0]\<close> with limit 1 and a callable that raises: the call
  ends with the exception of the first evaluation.
\<close>

theorem probe_zero_direction_counterexample:
  "int (length [0, 0 :: real]) = mesh_dimension toy_solver
   \<and> int (length [1 / 2, 0 :: real]) = mesh_dimension toy_solver
   \<and> linalg_norm (toy 2 ''cylinder slice'' []) [1 / 2, 0] < 1
   \<and> probe_function (toy 2 ''cylinder slice'' []) raising_probe [0, 0] [1 / 2, 0] 1 toy_solver
       = Some (Inl RuntimeError, emit [Evaluated [1 / 2, 0]] toy_solver)"
  by (simp add: probe_function_def probe_loop.simps toy_path_point raising_probe_def)

text \<open>
  Claim C10, as amended. Let the direction and the origin have the dimension of the
  mesh, every component of the direction be the number 0, the arithmetic of the backend
  satisfy \<^verbatim>\<open>0*k + x = x\<close> for every step \<open>k\<close> and every coordinate \<open>x\<close> of the origin,
  \<^verbatim>\<open>0 < radial_limit\<close> and \<^verbatim>\<open>norm(origin) < radial_limit\<close> hold in the comparison of the
  backend, and the callable return a value at the origin. Then the call does not return:
  every round evaluates at the origin again and finds the same radius.
\<close>

theorem probe_zero_direction_diverges:
  assumes "int (length gradient_vector) = mesh_dimension s"
    and "int (length origin) = mesh_dimension s"
    and "\<forall>x\<in>set gradient_vector. x = py_number be 0"
    and "\<forall>k. \<forall>x\<in>set origin.
           py_add be (py_mul be (py_number be 0) (py_number be (int k))) x = x"
    and "py_less be (py_number be 0) radial_limit"
    and "py_less be (linalg_norm be origin) radial_limit"
    and "fn origin = Inr y0"
  shows "probe_function be fn gradient_vector origin radial_limit s = None"
proof -
  from assms(1,2) have len: "length gradient_vector = length origin" by simp
  have pp: "path_point be gradient_vector k origin = origin" for k
    using path_point_zero_direction [OF len assms(3)] assms(4) by blast
  have "probe_loop be fn gradient_vector origin radial_limit (py_number be 0) 0 []
      (path_point be gradient_vector 0 origin) s = None"
    by (rule probe_loop_diverges) (use assms(5,6,7) in \<open>simp_all add: pp\<close>)
  with assms(1,2) show ?thesis by (simp add: probe_function_def)
qed

text \<open>
  Direction \<open>[0, 0]\<close> from \<open>[1/2, 0]\<close> with limit 1.
\<close>

theorem probe_zero_direction_witness:
  "int (length [0, 0 :: real]) = mesh_dimension toy_solver
   \<and> linalg_norm (toy 2 ''cylinder slice'' []) [1 / 2, 0] < 1
   \<and> sum_probe [1 / 2, 0] = Inr (1 / 2)
   \<and> probe_function (toy 2 ''cylinder slice'' []) sum_probe [0, 0] [1 / 2, 0] 1 toy_solver = None"
proof -
  let ?be = "toy 2 ''cylinder slice'' []"
  have d: "int (length [0, 0 :: real]) = mesh_dimension toy_solver"
    "int (length [1 / 2, 0 :: real]) = mesh_dimension toy_solver"
    by simp_all
  have z: "\<forall>x\<in>set [0, 0 :: real]. x = py_number ?be 0" by simp
  have w: "\<forall>k. \<forall>x\<in>set [1 / 2, 0 :: real].
      py_add ?be (py_mul ?be (py_number ?be 0) (py_number ?be (int k))) x = x" by simp
  have p: "py_less ?be (py_number ?be 0) 1" by simp
  have l: "py_less ?be (linalg_norm ?be [1 / 2, 0]) 1" by simp
  have f: "sum_probe [1 / 2, 0] = Inr (1 / 2)" by (simp add: sum_probe_def)
  from probe_zero_direction_diverges [where fn = sum_probe, OF d z w p l f]
  have "probe_function ?be sum_probe [0, 0] [1 / 2, 0] 1 toy_solver = None" .
  with d l f show ?thesis by simp
qed

subsection \<open>Construction\<close>

lemma init_exit:
  assumes "topology_dim be = 2"
    and "symmetry be \<noteq> ''vertical axis-symmetry''"
    and "symmetry be \<noteq> ''horizontal axis-symmetry''"
    and "symmetry be \<noteq> ''cylinder slice''"
  shows "init be alpha0 n0 deg =
           (Inl SystemExit, [Message ''Inputted mesh symmetry not recognised.'',
                             Message ''Terminated code prematurely.''])"
  using assms by (simp add: init_def choose_sym_factor_def)

lemma init_tag_unread:
  assumes "topology_dim be = 3"
  shows "init (be\<lparr>symmetry := tag\<rparr>) alpha0 n0 deg =
           (map_sum id (\<lambda>s. s\<lparr>mesh_symmetry := tag\<rparr>) (fst (init be alpha0 n0 deg)),
            snd (init be alpha0 n0 deg))"
  using assms by (simp add: init_def choose_sym_factor_def Let_def split: sum.splits)

lemma init_constant_weight:
  assumes "topology_dim be = 3 \<or> (topology_dim be = 2 \<and> symmetry be = ''cylinder slice'')"
    and "init be alpha0 n0 deg = (Inr s, tr)"
  shows "sym_factor s = Constant_1 \<and> (\<forall>w f. Assembled w f \<in> set tr \<longrightarrow> w = Constant_1)"
proof -
  from assms(1) have c: "choose_sym_factor (topology_dim be) (symmetry be) = Inr (Some Constant_1)"
    by (auto simp add: choose_sym_factor_def)
  from assms(2) show ?thesis
    unfolding init_def c
    by (auto simp add: Let_def split: if_splits sum.splits)
qed

lemma init_succeeds:
  assumes "topology_dim be = 3 \<or> (topology_dim be = 2 \<and> symmetry be = ''cylinder slice'')"
    and "n0 + 1 \<noteq> 0"
    and "float_pow be (vector_max be (interpolate_density be))
           (py_div be (py_number be (- 1)) (py_number be (n0 + 1))) = Inr fmin"
  shows "\<exists>s. init be alpha0 n0 deg =
           (Inr s, [FunctionSpace deg, VectorFunctionSpace deg, Interpolated_density,
                    Assembled Constant_1 Form_P, Assembled Constant_1 Form_A])
         \<and> sym_factor s = Constant_1 \<and> field_min s = fmin \<and> field s = None"
proof -
  from assms(1) have c: "choose_sym_factor (topology_dim be) (symmetry be) = Inr (Some Constant_1)"
    by (auto simp add: choose_sym_factor_def)
  show ?thesis
    unfolding init_def c using assms(2,3) by (simp add: Let_def)
qed

text \<open>
  Claim C9, as amended. On a 2-D mesh a symmetry other than \<open>vertical axis-symmetry\<close>,
  \<open>horizontal axis-symmetry\<close> and \<open>cylinder slice\<close> ends the construction with
  \<^verbatim>\<open>sys.exit()\<close> after two printed lines and before any call into the backend. On a
  3-D mesh the symmetry is not examined: constructing with another symmetry gives the
  same outcome and the same trace, the solver differing only in the stored
  \<open>mesh_symmetry\<close>. On a 3-D mesh, whatever the symmetry, and on a 2-D cylinder slice,
  the construction succeeds whenever \<open>n \<noteq> -1\<close> and the power that gives \<open>field_min\<close>
  does not raise; every construction that succeeds has the weight \<^verbatim>\<open>Constant(1)\<close>, and
  its two assembled forms use that weight.
\<close>

theorem symmetry_weight_selection:
  "(topology_dim be = 2 \<and> symmetry be \<noteq> ''vertical axis-symmetry''
      \<and> symmetry be \<noteq> ''horizontal axis-symmetry'' \<and> symmetry be \<noteq> ''cylinder slice'' \<longrightarrow>
      init be alpha0 n0 deg =
        (Inl SystemExit, [Message ''Inputted mesh symmetry not recognised.'',
                          Message ''Terminated code prematurely.'']))
   \<and> (topology_dim be = 3 \<longrightarrow>
      init (be\<lparr>symmetry := tag\<rparr>) alpha0 n0 deg =
        (map_sum id (\<lambda>s. s\<lparr>mesh_symmetry := tag\<rparr>) (fst (init be alpha0 n0 deg)),
         snd (init be alpha0 n0 deg)))
   \<and> (topology_dim be = 3 \<or> (topology_dim be = 2 \<and> symmetry be = ''cylinder slice'') \<longrightarrow>
      (n0 + 1 \<noteq> 0
       \<and> float_pow be (vector_max be (interpolate_density be))
            (py_div be (py_number be (- 1)) (py_number be (n0 + 1))) = Inr fmin \<longrightarrow>
         (\<exists>s. init be alpha0 n0 deg =
                (Inr s, [FunctionSpace deg, VectorFunctionSpace deg, Interpolated_density,
                         Assembled Constant_1 Form_P, Assembled Constant_1 Form_A])
              \<and> sym_factor s = Constant_1 \<and> field_min s = fmin \<and> field s = None))
      \<and> (\<forall>s tr. init be alpha0 n0 deg = (Inr s, tr) \<longrightarrow>
           sym_factor s = Constant_1 \<and> (\<forall>w f. Assembled w f \<in> set tr \<longrightarrow> w = Constant_1)))"
  using init_exit [of be alpha0 n0 deg] init_tag_unread [of be tag alpha0 n0 deg]
    init_constant_weight [of be alpha0 n0 deg] init_succeeds [of be n0 fmin alpha0 deg]
  by blast

lemma toy_init_3d:
  "init (toy 3 tag vs) alpha0 1 1 =
     (Inr \<lparr>alpha = alpha0, n = 1, deg_V = 1, mesh_dimension = 3, mesh_symmetry = tag,
           sym_factor = Constant_1, density_projection = [1], density_max = 1, field_min = 1,
           field = None, field_grad_mag = None, residual = None, laplacian = None,
           potential_derivative = None, field_grad = None, p_field = None,
           P = 1, A = 1, relaxation_parameter = 1, tol_du = 1 / 10 ^ 14,
           tol_rel_du = 1 / 10 ^ 10, maxiter = 1000,
           trace = [FunctionSpace 1, VectorFunctionSpace 1, Interpolated_density,
                    Assembled Constant_1 Form_P, Assembled Constant_1 Form_A]\<rparr>,
      [FunctionSpace 1, VectorFunctionSpace 1, Interpolated_density,
       Assembled Constant_1 Form_P, Assembled Constant_1 Form_A])"
  by (simp add: init_def choose_sym_factor_def Let_def toy_literal_def)

text \<open>
  A 2-D mesh with the symmetry \<open>spherical\<close>, and a 3-D mesh.
\<close>

theorem symmetry_weight_selection_witness:
  "topology_dim (toy 2 ''spherical'' []) = 2
   \<and> init (toy 2 ''spherical'' []) 1 1 1 =
        (Inl SystemExit, [Message ''Inputted mesh symmetry not recognised.'',
                          Message ''Terminated code prematurely.''])
   \<and> topology_dim (toy 3 ''vertical axis-symmetry'' []) = 3
   \<and> init ((toy 3 ''vertical axis-symmetry'' [])\<lparr>symmetry := ''spherical''\<rparr>) 1 1 1 =
        (map_sum id (\<lambda>s. s\<lparr>mesh_symmetry := ''spherical''\<rparr>)
           (fst (init (toy 3 ''vertical axis-symmetry'' []) 1 1 1)),
         snd (init (toy 3 ''vertical axis-symmetry'' []) 1 1 1))
   \<and> map_sum id sym_factor (fst (init (toy 3 ''vertical axis-symmetry'' []) 1 1 1))
        = Inr Constant_1
   \<and> snd (init (toy 3 ''vertical axis-symmetry'' []) 1 1 1) =
        [FunctionSpace 1, VectorFunctionSpace 1, Interpolated_density,
         Assembled Constant_1 Form_P, Assembled Constant_1 Form_A]"
proof -
  let ?be2 = "toy 2 ''spherical'' []"
  let ?be3 = "toy 3 ''vertical axis-symmetry'' []"
  have h2: "topology_dim ?be2 = 2
      \<and> symmetry ?be2 \<noteq> ''vertical axis-symmetry''
      \<and> symmetry ?be2 \<noteq> ''horizontal axis-symmetry''
      \<and> symmetry ?be2 \<noteq> ''cylinder slice''"
    by simp
  with symmetry_weight_selection [of ?be2 1 1 1]
  have e: "init ?be2 1 1 1 =
        (Inl SystemExit, [Message ''Inputted mesh symmetry not recognised.'',
                          Message ''Terminated code prematurely.''])"
    by blast
  have h3: "topology_dim ?be3 = 3" by simp
  have n: "(1::int) + 1 \<noteq> 0" by simp
  have p: "float_pow ?be3 (vector_max ?be3 (interpolate_density ?be3))
            (py_div ?be3 (py_number ?be3 (- 1)) (py_number ?be3 (1 + 1))) = Inr 1"
    by simp
  from symmetry_weight_selection [of ?be3 1 1 1 "''spherical''" 1] h3
  have t: "init (?be3\<lparr>symmetry := ''spherical''\<rparr>) 1 1 1 =
        (map_sum id (\<lambda>s. s\<lparr>mesh_symmetry := ''spherical''\<rparr>) (fst (init ?be3 1 1 1)),
         snd (init ?be3 1 1 1))"
    by blast
  from symmetry_weight_selection [of ?be3 1 1 1 "''spherical''" 1] h3 n p
  obtain s where s: "init ?be3 1 1 1 =
                (Inr s, [FunctionSpace 1, VectorFunctionSpace 1, Interpolated_density,
                         Assembled Constant_1 Form_P, Assembled Constant_1 Form_A])"
    "sym_factor s = Constant_1"
    by blast
  then have w: "map_sum id sym_factor (fst (init ?be3 1 1 1)) = Inr Constant_1"
    and tr: "snd (init ?be3 1 1 1) =
        [FunctionSpace 1, VectorFunctionSpace 1, Interpolated_density,
         Assembled Constant_1 Form_P, Assembled Constant_1 Form_A]"
    by simp_all
  from h2 e h3 t w tr show ?thesis by blast
qed

text \<open>
  The symmetry \<open>spherical\<close> on a 3-D mesh: the construction succeeds with weight 1.
\<close>

theorem unknown_tag_in_3d_counterexample:
  "topology_dim (toy 3 ''spherical'' []) = 3
   \<and> symmetry (toy 3 ''spherical'' []) = ''spherical''
   \<and> map_sum id sym_factor (fst (init (toy 3 ''spherical'' []) 1 1 1)) = Inr Constant_1
   \<and> snd (init (toy 3 ''spherical'' []) 1 1 1) =
        [FunctionSpace 1, VectorFunctionSpace 1, Interpolated_density,
         Assembled Constant_1 Form_P, Assembled Constant_1 Form_A]"
  by (simp add: toy_init_3d)

end
